theory Spec2Isabelle
  imports Main "HOL-Library.Sublist"
begin

section \<open>LibreLink client: session and credential lifecycle\<close>

text \<open>
  A shallow embedding of \<^verbatim>\<open>src/librelink-client.ts\<close> (class \<^verbatim>\<open>LibreLinkClient\<close>) and of
  the \<^verbatim>\<open>clear_session\<close> handler of \<^verbatim>\<open>src/index.ts\<close>.

  The object's private fields are a record that every method takes and returns. What lies
  outside the object (the token file behind \<^verbatim>\<open>ConfigManager\<close>, the HTTP server, the clock)
  is a second record, the world, with a log of every I/O operation performed. What the
  collaborators answer is a parameter of the model (record \<open>env\<close>). A rejected promise
  is the outcome \<open>Throw\<close>. The recursive methods (\<^verbatim>\<open>login\<close>, \<^verbatim>\<open>getConnections\<close>,
  \<^verbatim>\<open>getGraphData\<close>) take fuel: the number of times the method body may be entered;
  running out of it is the outcome \<open>OutOfFuel\<close>.

  Numbers are JavaScript doubles in the source; the timestamps involved are integers
  (milliseconds since the epoch), modelled as \<open>int\<close>. \<^verbatim>\<open>Date.now()\<close> is read off the
  environment's clock at the number of I/O operations completed so far, so that time may pass
  at every \<^verbatim>\<open>await\<close> and stands still in between.

  Left out: the \<^verbatim>\<open>console.error\<close> messages; HTTP failures that are not axios errors; a
  failing write or delete of the token file (the Token Store's contract names no failure
  for them), so that the \<^verbatim>\<open>try/catch\<close> of \<^verbatim>\<open>saveSession\<close> has nothing to catch.
\<close>

subsection \<open>JavaScript truthiness of an optional string\<close>

text \<open>\<^verbatim>\<open>!x\<close> holds for \<^verbatim>\<open>null\<close>, \<^verbatim>\<open>undefined\<close> and the empty string.\<close>

definition truthy :: "string option \<Rightarrow> bool" where
  "truthy x = (case x of None \<Rightarrow> False | Some v \<Rightarrow> v \<noteq> [])"

text \<open>Upper-casing of the ASCII letters, every other character left as it is. It is not
  part of the model of the client (there \<^verbatim>\<open>String.prototype.toUpperCase\<close> is a parameter,
  see \<open>env\<close>); the scenarios below use it in the place of that built-in, on region names
  made of ASCII letters, where the two agree.\<close>

definition asciiUpperChar :: "char \<Rightarrow> char" where
  "asciiUpperChar c =
     (let k = (of_char c :: nat) in if 97 \<le> k \<and> k \<le> 122 then char_of (k - 32) else c)"

definition asciiUpperCase :: "string \<Rightarrow> string" where
  "asciiUpperCase s = map asciiUpperChar s"

subsection \<open>Data\<close>

text \<open>\<^verbatim>\<open>LibreLinkConfig\<close> (fields as the client uses them).\<close>

record LibreLinkConfig =
  email :: string
  password :: string
  region :: string
  targetLow :: int
  targetHigh :: int
  clientVersion :: string

text \<open>\<^verbatim>\<open>Partial<LibreLinkConfig>\<close>: every field may be missing.\<close>

record PartialConfig =
  p_email :: "string option"
  p_password :: "string option"
  p_region :: "string option"
  p_targetLow :: "int option"
  p_targetHigh :: "int option"
  p_clientVersion :: "string option"

text \<open>\<^verbatim>\<open>StoredTokenData\<close> (secure-storage.ts), as \<^verbatim>\<open>saveSession\<close> builds it.\<close>

record StoredTokenData =
  st_token :: string
  st_expires :: int
  st_userId :: string
  st_accountId :: string
  st_region :: string

text \<open>The private fields of \<^verbatim>\<open>LibreLinkClient\<close>. \<open>configManager\<close> tells whether the
  client holds a \<^verbatim>\<open>ConfigManager\<close> (the manager itself lives in the world).\<close>

record client =
  config :: LibreLinkConfig
  configManager :: bool
  baseUrl :: "string option"
  jwtToken :: "string option"
  userId :: "string option"
  accountId :: "string option"
  patientId :: "string option"
  tokenExpires :: int

text \<open>An axios instance: base URL, default headers, timeout.\<close>

record http_client =
  hc_baseURL :: "string option"
  hc_headers :: "(string \<times> string) list"
  hc_timeout :: nat

text \<open>The parts of an \<^verbatim>\<open>AxiosError\<close> the code inspects: \<^verbatim>\<open>response?.status\<close>,
  \<^verbatim>\<open>response.data?.data?.minimumVersion\<close>, \<^verbatim>\<open>response.data?.message\<close>, \<^verbatim>\<open>message\<close>.\<close>

record axios_error =
  ae_status :: "nat option"
  ae_minimumVersion :: "string option"
  ae_responseMessage :: "string option"
  ae_message :: string

text \<open>The body of a login response (\<^verbatim>\<open>LoginResponse\<close>). The interface declares \<^verbatim>\<open>user\<close> and
  \<^verbatim>\<open>authTicket\<close> as always there; the code tests \<^verbatim>\<open>authTicket\<close> for absence and a redirect
  answer carries neither, so each part that the JSON may lack is an option: \<^verbatim>\<open>data\<close>,
  \<^verbatim>\<open>data.user\<close>, \<^verbatim>\<open>data.user.id\<close> (a \<^verbatim>\<open>user\<close> object without \<^verbatim>\<open>id\<close> is \<open>u_id = None\<close>),
  \<^verbatim>\<open>data.authTicket\<close>, \<^verbatim>\<open>data.redirect\<close>, \<^verbatim>\<open>data.region\<close>.\<close>

record authTicket =
  at_token :: string
  at_expires :: int

record user =
  u_id :: "string option"

record login_data =
  ld_user :: "user option"
  ld_authTicket :: "authTicket option"
  ld_redirect :: "bool option"
  ld_region :: "string option"

record LoginResponse =
  lr_status :: int
  lr_data :: "login_data option"

datatype login_reply = LoginBody LoginResponse | LoginFailure axios_error

record Connection =
  c_patientId :: string

type_synonym GraphResponse = string

datatype connections_reply = ConnectionsBody "Connection list option" | ConnectionsFailure axios_error

datatype graph_reply = GraphBody GraphResponse | GraphFailure axios_error

datatype error =
    NotAuthenticated
  | InvalidLoginResponse
  | TypeError
  | MinimumVersion string string
  | RequiredHeaderMissing
  | AuthenticationFailed
  | LoginFailed string
  | Axios axios_error
  | NoConnections

datatype 'a outcome = Return 'a | Throw error | OutOfFuel

subsection \<open>The world\<close>

datatype token_file = NoFile | Envelope StoredTokenData | Corrupted

datatype event =
    ReadToken
  | DeleteToken
  | WriteToken StoredTokenData
  | PostLogin http_client string string
  | GetConnections http_client
  | GetGraph http_client string

record world =
  tokenFile :: token_file
  events :: "event list"

text \<open>What the collaborators answer. \<open>LIBRE_LINK_SERVERS\<close> is the table of types.ts (not
  among the sources); \<open>sha256_hex\<close> is Node's
  \<^verbatim>\<open>createHash('sha256').update(x).digest('hex')\<close> and \<open>toUpperCase\<close> is JavaScript's
  \<^verbatim>\<open>String.prototype.toUpperCase\<close>, both taken as they are; the server's replies depend on
  how many requests of the kind came before and on the request; the clock depends on how
  many I/O operations have completed.\<close>

record env =
  LIBRE_LINK_SERVERS :: "string \<Rightarrow> string option"
  sha256_hex :: "string \<Rightarrow> string"
  toUpperCase :: "string \<Rightarrow> string"
  loginReply :: "nat \<Rightarrow> http_client \<Rightarrow> string \<Rightarrow> string \<Rightarrow> login_reply"
  connectionsReply :: "nat \<Rightarrow> http_client \<Rightarrow> connections_reply"
  graphReply :: "nat \<Rightarrow> http_client \<Rightarrow> string \<Rightarrow> graph_reply"
  clock :: "nat \<Rightarrow> int"

definition emit :: "event \<Rightarrow> world \<Rightarrow> world" where
  "emit ev w = w\<lparr>events := events w @ [ev]\<rparr>"

fun isPostLogin :: "event \<Rightarrow> bool" where
  "isPostLogin (PostLogin c em pw) = True"
| "isPostLogin ev = False"

fun isGetConnections :: "event \<Rightarrow> bool" where
  "isGetConnections (GetConnections c) = True"
| "isGetConnections ev = False"

fun isGetGraph :: "event \<Rightarrow> bool" where
  "isGetGraph (GetGraph c p) = True"
| "isGetGraph ev = False"

definition count :: "(event \<Rightarrow> bool) \<Rightarrow> world \<Rightarrow> nat" where
  "count P w = length (filter P (events w))"

text \<open>\<^verbatim>\<open>Date.now()\<close>.\<close>

definition now :: "env \<Rightarrow> world \<Rightarrow> int" where
  "now e w = clock e (length (events w))"

text \<open>Modelled from the spec: \<^verbatim>\<open>ConfigManager.getToken\<close>, \<^verbatim>\<open>clearToken\<close> and \<^verbatim>\<open>saveToken\<close>
  (config.ts and secure-storage.ts are not among the sources). The Token Store has the
  contract of the Credential Store: loading fails when the envelope is malformed or the tag
  check fails, and gives nothing when there is no envelope; \<open>clear\<close> deletes the envelope
  unconditionally; \<open>save\<close> writes a new envelope.\<close>

definition getToken :: "world \<Rightarrow> (unit + StoredTokenData option) \<times> world" where
  "getToken w =
     (case tokenFile w of
        NoFile \<Rightarrow> (Inr None, emit ReadToken w)
      | Envelope t \<Rightarrow> (Inr (Some t), emit ReadToken w)
      | Corrupted \<Rightarrow> (Inl (), emit ReadToken w))"

definition clearToken :: "world \<Rightarrow> world" where
  "clearToken w = emit DeleteToken (w\<lparr>tokenFile := NoFile\<rparr>)"

definition saveToken :: "StoredTokenData \<Rightarrow> world \<Rightarrow> world" where
  "saveToken t w = emit (WriteToken t) (w\<lparr>tokenFile := Envelope t\<rparr>)"

subsection \<open>The client\<close>

definition DEFAULT_CLIENT_VERSION :: string where
  "DEFAULT_CLIENT_VERSION = ''4.16.0''"

text \<open>\<^verbatim>\<open>LIBRE_LINK_SERVERS[r] || LIBRE_LINK_SERVERS['GLOBAL']\<close>.\<close>

definition serverFor :: "env \<Rightarrow> string \<Rightarrow> string option" where
  "serverFor e r =
     (if truthy (LIBRE_LINK_SERVERS e r) then LIBRE_LINK_SERVERS e r
      else LIBRE_LINK_SERVERS e ''GLOBAL'')"

text \<open>The constructor. A configuration without \<^verbatim>\<open>clientVersion\<close> is one whose
  \<open>clientVersion\<close> is the empty string: \<^verbatim>\<open>config.clientVersion || DEFAULT_CLIENT_VERSION\<close>
  treats both alike.\<close>

definition newClient :: "env \<Rightarrow> LibreLinkConfig \<Rightarrow> bool \<Rightarrow> client" where
  "newClient e cfg mgr =
     \<lparr>config = cfg\<lparr>clientVersion :=
          (if clientVersion cfg \<noteq> [] then clientVersion cfg else DEFAULT_CLIENT_VERSION)\<rparr>,
      configManager = mgr,
      baseUrl = serverFor e (region cfg),
      jwtToken = None, userId = None, accountId = None, patientId = None,
      tokenExpires = 0\<rparr>"

definition generateAccountId :: "env \<Rightarrow> string \<Rightarrow> string" where
  "generateAccountId e uid = sha256_hex e uid"

definition baseHeaders :: "client \<Rightarrow> (string \<times> string) list" where
  "baseHeaders s =
     [(''Accept'', ''application/json''),
      (''Content-Type'', ''application/json''),
      (''Accept-Encoding'', ''gzip''),
      (''Cache-Control'', ''no-cache''),
      (''Connection'', ''Keep-Alive''),
      (''product'', ''llu.android''),
      (''version'', clientVersion (config s))]"

definition createClient :: "client \<Rightarrow> http_client" where
  "createClient s = \<lparr>hc_baseURL = baseUrl s, hc_headers = baseHeaders s, hc_timeout = 30000\<rparr>"

definition createAuthenticatedClient :: "client \<Rightarrow> error + http_client" where
  "createAuthenticatedClient s =
     (if \<not> truthy (jwtToken s) \<or> \<not> truthy (accountId s) then Inl NotAuthenticated
      else Inr \<lparr>hc_baseURL = baseUrl s,
                hc_headers = baseHeaders s @
                  [(''Authorization'', ''Bearer '' @ the (jwtToken s)),
                   (''Account-Id'', the (accountId s))],
                hc_timeout = 30000\<rparr>)"

definition isTokenValid :: "env \<Rightarrow> client \<Rightarrow> world \<Rightarrow> bool" where
  "isTokenValid e s w =
     (if \<not> truthy (jwtToken s) \<or> \<not> truthy (accountId s) then False
      else now e w < tokenExpires s - 300000)"

definition tryRestoreSession :: "env \<Rightarrow> client \<Rightarrow> world \<Rightarrow> bool \<times> client \<times> world" where
  "tryRestoreSession e s w =
     (if \<not> configManager s then (False, s, w)
      else case getToken w of
        (Inl err, w1) \<Rightarrow> (False, s, w1)
      | (Inr None, w1) \<Rightarrow> (False, s, w1)
      | (Inr (Some storedToken), w1) \<Rightarrow>
          if st_region storedToken \<noteq> region (config s) then (False, s, clearToken w1)
          else (True,
                s\<lparr>jwtToken := Some (st_token storedToken),
                  tokenExpires := st_expires storedToken,
                  userId := Some (st_userId storedToken),
                  accountId := Some (st_accountId storedToken),
                  baseUrl := serverFor e (st_region storedToken)\<rparr>,
                w1))"

definition saveSession :: "client \<Rightarrow> world \<Rightarrow> world" where
  "saveSession s w =
     (if \<not> configManager s \<or> \<not> truthy (jwtToken s) \<or> \<not> truthy (userId s)
         \<or> \<not> truthy (accountId s) then w
      else saveToken \<lparr>st_token = the (jwtToken s), st_expires = tokenExpires s,
                      st_userId = the (userId s), st_accountId = the (accountId s),
                      st_region = region (config s)\<rparr> w)"

text \<open>The \<^verbatim>\<open>catch\<close> block of \<^verbatim>\<open>login\<close>, for an axios error.\<close>

definition loginError :: "client \<Rightarrow> axios_error \<Rightarrow> error" where
  "loginError s ae =
     (if ae_status ae = Some 403 \<and> truthy (ae_minimumVersion ae)
        then MinimumVersion (the (ae_minimumVersion ae)) (clientVersion (config s))
      else if ae_status ae = Some 403 \<and> ae_responseMessage ae = Some ''RequiredHeaderMissing''
        then RequiredHeaderMissing
      else if ae_status ae = Some 401 then AuthenticationFailed
      else LoginFailed (ae_message ae))"

text \<open>The redirect branch of \<^verbatim>\<open>login\<close>: the new base URL and region.\<close>

definition redirectTo :: "env \<Rightarrow> string \<Rightarrow> client \<Rightarrow> client" where
  "redirectTo e r s =
     (let newRegion = toUpperCase e r in
      s\<lparr>baseUrl :=
           (if truthy (LIBRE_LINK_SERVERS e newRegion) then LIBRE_LINK_SERVERS e newRegion
            else Some (''https://api-'' @ r @ ''.libreview.io'')),
        config := (config s)\<lparr>region := newRegion\<rparr>\<rparr>)"

text \<open>The success branch of \<^verbatim>\<open>login\<close>, statement by statement. The token and its expiry
  are stored first. Reading \<^verbatim>\<open>data.data.user.id\<close> of a body without \<^verbatim>\<open>user\<close> then throws a
  TypeError. With a \<^verbatim>\<open>user\<close> the user id is stored, \<^verbatim>\<open>undefined\<close> when the object has no
  \<^verbatim>\<open>id\<close>, and hashing \<^verbatim>\<open>undefined\<close> throws a TypeError. The \<^verbatim>\<open>catch\<close> block rethrows
  both.\<close>

definition storeAuthentication ::
  "env \<Rightarrow> authTicket \<Rightarrow> user option \<Rightarrow> client \<Rightarrow> world \<Rightarrow> unit outcome \<times> client \<times> world" where
  "storeAuthentication e ticket usr s w =
     (let s1 = s\<lparr>jwtToken := Some (at_token ticket),
                 tokenExpires := at_expires ticket * 1000\<rparr> in
      case usr of
        None \<Rightarrow> (Throw TypeError, s1, w)
      | Some u \<Rightarrow>
          (let s2 = s1\<lparr>userId := u_id u\<rparr> in
           case u_id u of
             None \<Rightarrow> (Throw TypeError, s2, w)
           | Some uid \<Rightarrow>
               (let s3 = s2\<lparr>accountId := Some (generateAccountId e uid)\<rparr>
                in (Return (), s3, saveSession s3 w))))"

fun login :: "env \<Rightarrow> nat \<Rightarrow> client \<Rightarrow> world \<Rightarrow> unit outcome \<times> client \<times> world" where
  "login e 0 s w = (OutOfFuel, s, w)"
| "login e (Suc n) s w =
     (let c = createClient s;
          w1 = emit (PostLogin c (email (config s)) (password (config s))) w in
      case loginReply e (count isPostLogin w) c (email (config s)) (password (config s)) of
        LoginFailure ae \<Rightarrow> (Throw (loginError s ae), s, w1)
      | LoginBody body \<Rightarrow>
          (case lr_data body of
             None \<Rightarrow> (Throw TypeError, s, w1)
           | Some d \<Rightarrow>
               if ld_redirect d = Some True \<and> truthy (ld_region d)
               then login e n (redirectTo e (the (ld_region d)) s) w1
               else if lr_status body \<noteq> 0 \<or> ld_authTicket d = None
               then (Throw InvalidLoginResponse, s, w1)
               else storeAuthentication e (the (ld_authTicket d)) (ld_user d) s w1))"

definition ensureAuthenticated ::
  "env \<Rightarrow> nat \<Rightarrow> client \<Rightarrow> world \<Rightarrow> unit outcome \<times> client \<times> world" where
  "ensureAuthenticated e fuel s w =
     (if \<not> isTokenValid e s w then
        (case tryRestoreSession e s w of
           (restored, s1, w1) \<Rightarrow>
             if restored \<and> isTokenValid e s1 w1 then (Return (), s1, w1)
             else if \<not> isTokenValid e s1 w1 then login e fuel s1 w1
             else (Return (), s1, w1))
      else (Return (), s, w))"

fun getConnections ::
  "env \<Rightarrow> nat \<Rightarrow> client \<Rightarrow> world \<Rightarrow> Connection list outcome \<times> client \<times> world" where
  "getConnections e 0 s w = (OutOfFuel, s, w)"
| "getConnections e (Suc n) s w =
     (case ensureAuthenticated e (Suc n) s w of
        (Throw err, s1, w1) \<Rightarrow> (Throw err, s1, w1)
      | (OutOfFuel, s1, w1) \<Rightarrow> (OutOfFuel, s1, w1)
      | (Return u, s1, w1) \<Rightarrow>
          (case createAuthenticatedClient s1 of
             Inl err \<Rightarrow> (Throw err, s1, w1)
           | Inr c \<Rightarrow>
               (let w2 = emit (GetConnections c) w1 in
                case connectionsReply e (count isGetConnections w1) c of
                  ConnectionsBody d \<Rightarrow>
                    (Return (case d of None \<Rightarrow> [] | Some cs \<Rightarrow> cs), s1, w2)
                | ConnectionsFailure ae \<Rightarrow>
                    if ae_status ae = Some 401 then
                      (let w3 = (if configManager s1 then clearToken w2 else w2);
                           s2 = s1\<lparr>jwtToken := None\<rparr> in
                       case ensureAuthenticated e (Suc n) s2 w3 of
                         (Throw err, s3, w4) \<Rightarrow> (Throw err, s3, w4)
                       | (OutOfFuel, s3, w4) \<Rightarrow> (OutOfFuel, s3, w4)
                       | (Return u', s3, w4) \<Rightarrow> getConnections e n s3 w4)
                    else (Throw (Axios ae), s1, w2))))"

definition getPatientId ::
  "env \<Rightarrow> nat \<Rightarrow> client \<Rightarrow> world \<Rightarrow> string outcome \<times> client \<times> world" where
  "getPatientId e fuel s w =
     (if truthy (patientId s) then (Return (the (patientId s)), s, w)
      else case getConnections e fuel s w of
        (Throw err, s1, w1) \<Rightarrow> (Throw err, s1, w1)
      | (OutOfFuel, s1, w1) \<Rightarrow> (OutOfFuel, s1, w1)
      | (Return connections, s1, w1) \<Rightarrow>
          (case connections of
             [] \<Rightarrow> (Throw NoConnections, s1, w1)
           | c # cs \<Rightarrow> (Return (c_patientId c), s1\<lparr>patientId := Some (c_patientId c)\<rparr>, w1)))"

text \<open>\<^verbatim>\<open>ENDPOINTS.graph\<close>.\<close>

definition ENDPOINTS_graph :: "string \<Rightarrow> string" where
  "ENDPOINTS_graph pid = ''/llu/connections/'' @ pid @ ''/graph''"

fun getGraphData ::
  "env \<Rightarrow> nat \<Rightarrow> client \<Rightarrow> world \<Rightarrow> GraphResponse outcome \<times> client \<times> world" where
  "getGraphData e 0 s w = (OutOfFuel, s, w)"
| "getGraphData e (Suc n) s w =
     (case ensureAuthenticated e (Suc n) s w of
        (Throw err, s1, w1) \<Rightarrow> (Throw err, s1, w1)
      | (OutOfFuel, s1, w1) \<Rightarrow> (OutOfFuel, s1, w1)
      | (Return u, s1, w1) \<Rightarrow>
          (case getPatientId e (Suc n) s1 w1 of
             (Throw err, s2, w2) \<Rightarrow> (Throw err, s2, w2)
           | (OutOfFuel, s2, w2) \<Rightarrow> (OutOfFuel, s2, w2)
           | (Return pid, s2, w2) \<Rightarrow>
               (case createAuthenticatedClient s2 of
                  Inl err \<Rightarrow> (Throw err, s2, w2)
                | Inr c \<Rightarrow>
                    (let path = ENDPOINTS_graph pid;
                         w3 = emit (GetGraph c path) w2 in
                     case graphReply e (count isGetGraph w2) c path of
                       GraphBody d \<Rightarrow> (Return d, s2, w3)
                     | GraphFailure ae \<Rightarrow>
                         if ae_status ae = Some 401 then
                           (let w4 = (if configManager s2 then clearToken w3 else w3);
                                s3 = s2\<lparr>jwtToken := None\<rparr> in
                            case ensureAuthenticated e (Suc n) s3 w4 of
                              (Throw err, s4, w5) \<Rightarrow> (Throw err, s4, w5)
                            | (OutOfFuel, s4, w5) \<Rightarrow> (OutOfFuel, s4, w5)
                            | (Return u', s4, w5) \<Rightarrow> getGraphData e n s4 w5)
                         else (Throw (Axios ae), s2, w3)))))"

text \<open>\<^verbatim>\<open>{ ...this.config, ...newConfig }\<close>.\<close>

definition mergeConfig :: "LibreLinkConfig \<Rightarrow> PartialConfig \<Rightarrow> LibreLinkConfig" where
  "mergeConfig c p =
     \<lparr>email = (case p_email p of None \<Rightarrow> email c | Some v \<Rightarrow> v),
      password = (case p_password p of None \<Rightarrow> password c | Some v \<Rightarrow> v),
      region = (case p_region p of None \<Rightarrow> region c | Some v \<Rightarrow> v),
      targetLow = (case p_targetLow p of None \<Rightarrow> targetLow c | Some v \<Rightarrow> v),
      targetHigh = (case p_targetHigh p of None \<Rightarrow> targetHigh c | Some v \<Rightarrow> v),
      clientVersion = (case p_clientVersion p of None \<Rightarrow> clientVersion c | Some v \<Rightarrow> v)\<rparr>"

definition updateConfig :: "env \<Rightarrow> PartialConfig \<Rightarrow> client \<Rightarrow> client" where
  "updateConfig e newConfig s =
     (let s1 = s\<lparr>config := mergeConfig (config s) newConfig\<rparr> in
      if truthy (p_email newConfig) \<or> truthy (p_password newConfig) \<or> truthy (p_region newConfig)
      then
        (let s2 = s1\<lparr>jwtToken := None, accountId := None, patientId := None\<rparr> in
         if truthy (p_region newConfig)
         then s2\<lparr>baseUrl := serverFor e (the (p_region newConfig))\<rparr>
         else s2)
      else s1)"

definition clearSession :: "client \<Rightarrow> world \<Rightarrow> client \<times> world" where
  "clearSession s w =
     (s\<lparr>jwtToken := None, accountId := None, userId := None, patientId := None,
        tokenExpires := 0\<rparr>,
      if configManager s then clearToken w else w)"

record SessionStatus =
  authenticated :: bool
  tokenValid :: bool
  expiresAt :: "int option"

definition getSessionStatus :: "env \<Rightarrow> client \<Rightarrow> world \<Rightarrow> SessionStatus \<times> client \<times> world" where
  "getSessionStatus e s w =
     (\<lparr>authenticated = truthy (jwtToken s),
       tokenValid = isTokenValid e s w,
       expiresAt = (if tokenExpires s > 0 then Some (tokenExpires s) else None)\<rparr>,
      s, w)"

text \<open>The \<^verbatim>\<open>clear_session\<close> tool of index.ts: the client, when there is one, clears its
  session; the server's own \<^verbatim>\<open>ConfigManager\<close> then clears the token once more.\<close>

definition clear_session :: "client option \<Rightarrow> world \<Rightarrow> client option \<times> world" where
  "clear_session cl w =
     (case cl of
        None \<Rightarrow> (None, clearToken w)
      | Some s \<Rightarrow> (case clearSession s w of (s1, w1) \<Rightarrow> (Some s1, clearToken w1)))"

subsection \<open>Replies, classified\<close>

text \<open>The reply to the POST that \<^verbatim>\<open>login\<close> sends from state \<open>s\<close> in world \<open>w\<close>.\<close>

definition nextLoginReply :: "env \<Rightarrow> client \<Rightarrow> world \<Rightarrow> login_reply" where
  "nextLoginReply e s w =
     loginReply e (count isPostLogin w) (createClient s) (email (config s)) (password (config s))"

text \<open>A reply that takes the redirect branch of \<^verbatim>\<open>login\<close>, and the region it names.\<close>

fun isRedirect :: "login_reply \<Rightarrow> bool" where
  "isRedirect (LoginFailure ae) = False"
| "isRedirect (LoginBody body) =
     (case lr_data body of
        None \<Rightarrow> False
      | Some d \<Rightarrow> ld_redirect d = Some True \<and> truthy (ld_region d))"

fun redirectRegion :: "login_reply \<Rightarrow> string" where
  "redirectRegion (LoginFailure ae) = []"
| "redirectRegion (LoginBody body) =
     (case lr_data body of
        None \<Rightarrow> []
      | Some d \<Rightarrow> (case ld_region d of None \<Rightarrow> [] | Some r \<Rightarrow> r))"





subsection \<open>Scenarios\<close>

definition servers :: "string \<Rightarrow> string option" where
  "servers r =
     (if r = ''EU'' then Some ''https://api-eu.libreview.io''
      else if r = ''US'' then Some ''https://api-us.libreview.io''
      else if r = ''GLOBAL'' then Some ''https://api.libreview.io''
      else None)"

definition cfgEU :: LibreLinkConfig where
  "cfgEU = \<lparr>email = ''a@b.com'', password = ''pw'', region = ''EU'',
            targetLow = 70, targetHigh = 180, clientVersion = ''4.16.0''\<rparr>"

definition grant :: "string \<Rightarrow> string \<Rightarrow> int \<Rightarrow> login_reply" where
  "grant t u ex =
     LoginBody \<lparr>lr_status = 0,
                lr_data = Some \<lparr>ld_user = Some \<lparr>u_id = Some u\<rparr>,
                                ld_authTicket = Some \<lparr>at_token = t, at_expires = ex\<rparr>,
                                ld_redirect = None, ld_region = None\<rparr>\<rparr>"

definition redirect :: "string \<Rightarrow> login_reply" where
  "redirect r =
     LoginBody \<lparr>lr_status = 0,
                lr_data = Some \<lparr>ld_user = None, ld_authTicket = None,
                                ld_redirect = Some True, ld_region = Some r\<rparr>\<rparr>"

definition http401 :: axios_error where
  "http401 = \<lparr>ae_status = Some 401, ae_minimumVersion = None, ae_responseMessage = None,
              ae_message = ''Request failed with status code 401''\<rparr>"

text \<open>A scenario: the n-th login, connections and graph replies; a stand-in for the hash;
  upper-casing as on ASCII letters; a clock that stands at 1000000 ms.\<close>

definition scenario ::
  "(nat \<Rightarrow> login_reply) \<Rightarrow> (nat \<Rightarrow> connections_reply) \<Rightarrow> (nat \<Rightarrow> graph_reply) \<Rightarrow> env" where
  "scenario l c g =
     \<lparr>LIBRE_LINK_SERVERS = servers,
      sha256_hex = (\<lambda>u. ''sha256:'' @ u),
      toUpperCase = asciiUpperCase,
      loginReply = (\<lambda>k cl em pw. l k),
      connectionsReply = (\<lambda>k cl. c k),
      graphReply = (\<lambda>k cl p. g k),
      clock = (\<lambda>n. 1000000)\<rparr>"

definition emptyWorld :: world where
  "emptyWorld = \<lparr>tokenFile = NoFile, events = []\<rparr>"

text \<open>A client holding a session that expires at the given time.\<close>

definition sessionUntil :: "int \<Rightarrow> client" where
  "sessionUntil ex =
     \<lparr>config = cfgEU, configManager = True, baseUrl = Some ''https://api-eu.libreview.io'',
      jwtToken = Some ''tok0'', userId = Some ''u0'', accountId = Some ''sha256:u0'',
      patientId = Some ''p0'', tokenExpires = ex\<rparr>"

text \<open>A server that grants every login and answers every data call.\<close>

definition envOK :: env where
  "envOK = scenario (\<lambda>k. grant ''tok1'' ''u1'' 5000)
                    (\<lambda>k. ConnectionsBody (Some [\<lparr>c_patientId = ''p1''\<rparr>]))
                    (\<lambda>k. GraphBody ''graph'')"

text \<open>Time does not run backwards.\<close>

definition clockMonotone :: "env \<Rightarrow> bool" where
  "clockMonotone e = (\<forall>i j. i \<le> j \<longrightarrow> clock e i \<le> clock e j)"

definition noPartial :: PartialConfig where
  "noPartial = \<lparr>p_email = None, p_password = None, p_region = None,
                p_targetLow = None, p_targetHigh = None, p_clientVersion = None\<rparr>"

definition staleUS :: StoredTokenData where
  "staleUS = \<lparr>st_token = ''tokUS'', st_expires = 5000000, st_userId = ''u0'',
              st_accountId = ''sha256:u0'', st_region = ''US''\<rparr>"

text \<open>The first login is redirected to the US endpoint, which rejects the credentials.\<close>

definition envRedirectReject :: env where
  "envRedirectReject =
     scenario (\<lambda>k. if k = 0 then redirect ''us'' else LoginFailure http401)
              (\<lambda>k. ConnectionsBody None)
              (\<lambda>k. GraphBody ''graph'')"

text \<open>Two redirects, then a grant.\<close>

definition envTwoRedirects :: env where
  "envTwoRedirects =
     scenario (\<lambda>k. if k = 0 then redirect ''us''
                    else if k = 1 then redirect ''eu''
                    else grant ''tok1'' ''u1'' 5000)
              (\<lambda>k. ConnectionsBody None)
              (\<lambda>k. GraphBody ''graph'')"

text \<open>Two endpoints that redirect to each other.\<close>

definition envCrossRedirect :: env where
  "envCrossRedirect =
     scenario (\<lambda>k. if even k then redirect ''us'' else redirect ''eu'')
              (\<lambda>k. ConnectionsBody None)
              (\<lambda>k. GraphBody ''graph'')"

text \<open>Every login is granted; the first two data calls of each kind are answered 401.\<close>

definition envTwo401 :: env where
  "envTwo401 =
     scenario (\<lambda>k. grant ''tok1'' ''u1'' 5000)
              (\<lambda>k. if k < 2 then ConnectionsFailure http401
                    else ConnectionsBody (Some [\<lparr>c_patientId = ''p1''\<rparr>]))
              (\<lambda>k. if k < 2 then GraphFailure http401 else GraphBody ''graph'')"

text \<open>Every login is granted; every data call is answered 401.\<close>

definition envAlways401 :: env where
  "envAlways401 =
     scenario (\<lambda>k. grant ''tok1'' ''u1'' 5000)
              (\<lambda>k. ConnectionsFailure http401)
              (\<lambda>k. GraphFailure http401)"




text \<open>A client whose headers carry a bearer token and an account id, both non-empty; a
  logged data request that was sent with such a client.\<close>

definition hasCredentials :: "http_client \<Rightarrow> bool" where
  "hasCredentials c =
     ((case map_of (hc_headers c) ''Authorization'' of
         None \<Rightarrow> False
       | Some v \<Rightarrow> take 7 v = ''Bearer '' \<and> drop 7 v \<noteq> [])
      \<and> (case map_of (hc_headers c) ''Account-Id'' of
            None \<Rightarrow> False
          | Some a \<Rightarrow> a \<noteq> []))"

fun carriesCredentials :: "event \<Rightarrow> bool" where
  "carriesCredentials (GetConnections c) = hasCredentials c"
| "carriesCredentials (GetGraph c p) = hasCredentials c"
| "carriesCredentials ev = True"

text \<open>The client and the world once \<^verbatim>\<open>login\<close> has followed the redirects it is answered
  with, one request each, up to the first answer that is not a redirect (or the end of the
  fuel).\<close>

fun afterRedirects :: "env \<Rightarrow> nat \<Rightarrow> client \<Rightarrow> world \<Rightarrow> client \<times> world" where
  "afterRedirects e 0 s w = (s, w)"
| "afterRedirects e (Suc n) s w =
     (if isRedirect (nextLoginReply e s w)
      then afterRedirects e n (redirectTo e (redirectRegion (nextLoginReply e s w)) s)
             (emit (PostLogin (createClient s) (email (config s)) (password (config s))) w)
      else (s, w))"

text \<open>The region named by the last of these redirects, if there was one.\<close>

fun lastRedirect :: "env \<Rightarrow> nat \<Rightarrow> client \<Rightarrow> world \<Rightarrow> string option" where
  "lastRedirect e 0 s w = None"
| "lastRedirect e (Suc n) s w =
     (if isRedirect (nextLoginReply e s w)
      then (case lastRedirect e n (redirectTo e (redirectRegion (nextLoginReply e s w)) s)
                   (emit (PostLogin (createClient s) (email (config s)) (password (config s))) w) of
              None \<Rightarrow> Some (redirectRegion (nextLoginReply e s w))
            | Some r \<Rightarrow> Some r)
      else None)"

text \<open>The first login is redirected to the endpoint of the given region, which grants it.\<close>

definition envRedirectGrant :: "string \<Rightarrow> env" where
  "envRedirectGrant r =
     scenario (\<lambda>k. if k = 0 then redirect r else grant ''tok1'' ''u1'' 5000)
              (\<lambda>k. ConnectionsBody None)
              (\<lambda>k. GraphBody ''graph'')"

text \<open>Every data call is answered 401 and every login is rejected.\<close>

definition envUnauthorizedRejected :: env where
  "envUnauthorizedRejected =
     scenario (\<lambda>k. LoginFailure http401)
              (\<lambda>k. ConnectionsFailure http401)
              (\<lambda>k. GraphFailure http401)"

text \<open>What a fresh client holds once the server of \<open>envOK\<close> has granted its login: the
  session, the stored bundle, and the authenticated client with its nine headers.\<close>

definition sessionOK :: client where
  "sessionOK =
     \<lparr>config = cfgEU, configManager = True, baseUrl = Some ''https://api-eu.libreview.io'',
      jwtToken = Some ''tok1'', userId = Some ''u1'', accountId = Some ''sha256:u1'',
      patientId = None, tokenExpires = 5000000\<rparr>"

definition bundleOK :: StoredTokenData where
  "bundleOK = \<lparr>st_token = ''tok1'', st_expires = 5000000, st_userId = ''u1'',
               st_accountId = ''sha256:u1'', st_region = ''EU''\<rparr>"

definition clientOK :: http_client where
  "clientOK =
     \<lparr>hc_baseURL = Some ''https://api-eu.libreview.io'',
      hc_headers =
        [(''Accept'', ''application/json''),
         (''Content-Type'', ''application/json''),
         (''Accept-Encoding'', ''gzip''),
         (''Cache-Control'', ''no-cache''),
         (''Connection'', ''Keep-Alive''),
         (''product'', ''llu.android''),
         (''version'', ''4.16.0''),
         (''Authorization'', ''Bearer tok1''),
         (''Account-Id'', ''sha256:u1'')],
      hc_timeout = 30000\<rparr>"

definition loginClientOK :: http_client where
  "loginClientOK =
     \<lparr>hc_baseURL = Some ''https://api-eu.libreview.io'',
      hc_headers =
        [(''Accept'', ''application/json''),
         (''Content-Type'', ''application/json''),
         (''Accept-Encoding'', ''gzip''),
         (''Cache-Control'', ''no-cache''),
         (''Connection'', ''Keep-Alive''),
         (''product'', ''llu.android''),
         (''version'', ''4.16.0'')],
      hc_timeout = 30000\<rparr>"

section \<open>Basic facts\<close>

declare login.simps [simp del] getConnections.simps [simp del] getGraphData.simps [simp del]

lemma emit_simps [simp]:
  "events (emit ev w) = events w @ [ev]"
  "tokenFile (emit ev w) = tokenFile w"
  by (simp_all add: emit_def)

lemma clearToken_simps [simp]:
  "events (clearToken w) = events w @ [DeleteToken]"
  "tokenFile (clearToken w) = NoFile"
  by (simp_all add: clearToken_def)

lemma saveToken_simps [simp]:
  "events (saveToken t w) = events w @ [WriteToken t]"
  "tokenFile (saveToken t w) = Envelope t"
  by (simp_all add: saveToken_def)

lemma scenario_simps [simp]:
  "LIBRE_LINK_SERVERS (scenario l c g) = servers"
  "sha256_hex (scenario l c g) u = ''sha256:'' @ u"
  "toUpperCase (scenario l c g) = asciiUpperCase"
  "loginReply (scenario l c g) k cl em pw = l k"
  "connectionsReply (scenario l c g) k cl = c k"
  "graphReply (scenario l c g) k cl p = g k"
  "clock (scenario l c g) n = 1000000"
  by (simp_all add: scenario_def)

lemma now_scenario [simp]: "now (scenario l c g) w = 1000000"
  by (simp add: now_def)

lemma envOK_simps [simp]:
  "LIBRE_LINK_SERVERS envOK = servers"
  "sha256_hex envOK u = ''sha256:'' @ u"
  "toUpperCase envOK = asciiUpperCase"
  "loginReply envOK k cl em pw = grant ''tok1'' ''u1'' 5000"
  "connectionsReply envOK k cl = ConnectionsBody (Some [\<lparr>c_patientId = ''p1''\<rparr>])"
  "graphReply envOK k cl p = GraphBody ''graph''"
  "now envOK w = 1000000"
  by (simp_all add: envOK_def)

lemma sessionUntil_simps [simp]:
  "config (sessionUntil ex) = cfgEU"
  "configManager (sessionUntil ex)"
  "baseUrl (sessionUntil ex) = Some ''https://api-eu.libreview.io''"
  "jwtToken (sessionUntil ex) = Some ''tok0''"
  "userId (sessionUntil ex) = Some ''u0''"
  "accountId (sessionUntil ex) = Some ''sha256:u0''"
  "patientId (sessionUntil ex) = Some ''p0''"
  "tokenExpires (sessionUntil ex) = ex"
  by (simp_all add: sessionUntil_def)

lemma cfgEU_simps [simp]:
  "email cfgEU = ''a@b.com''" "password cfgEU = ''pw''" "region cfgEU = ''EU''"
  "clientVersion cfgEU = ''4.16.0''"
  by (simp_all add: cfgEU_def)

lemma emptyWorld_simps [simp]:
  "tokenFile emptyWorld = NoFile" "events emptyWorld = []"
  by (simp_all add: emptyWorld_def)

lemma newClient_simps [simp]:
  "config (newClient e cfgEU m) = cfgEU"
  "configManager (newClient e c m) = m"
  "jwtToken (newClient e c m) = None"
  "accountId (newClient e c m) = None"
  "userId (newClient e c m) = None"
  "patientId (newClient e c m) = None"
  "tokenExpires (newClient e c m) = 0"
  "baseUrl (newClient e c m) = serverFor e (region c)"
  by (simp_all add: newClient_def cfgEU_def DEFAULT_CLIENT_VERSION_def)

lemma clockMonotone_scenario [simp]: "clockMonotone (scenario l c g)"
  by (simp add: clockMonotone_def)

lemma clockMonotone_envOK [simp]: "clockMonotone envOK"
  by (simp add: envOK_def)

subsection \<open>The log only grows\<close>

lemma tryRestoreSession_log:
  "prefix (events w) (events (snd (snd (tryRestoreSession e s w))))"
  by (simp add: tryRestoreSession_def getToken_def split: token_file.splits)

lemma storeAuthentication_log:
  "prefix (events w) (events (snd (snd (storeAuthentication e t u s w))))"
  by (simp add: storeAuthentication_def saveSession_def Let_def split: option.splits)

lemma login_log: "prefix (events w) (events (snd (snd (login e fuel s w))))"
proof (induction fuel arbitrary: s w)
  case 0
  show ?case by (simp add: login.simps)
next
  case (Suc n)
  let ?w1 = "emit (PostLogin (createClient s) (email (config s)) (password (config s))) w"
  have w1: "prefix (events w) (events ?w1)" by simp
  have "prefix (events ?w1) (events (snd (snd (login e (Suc n) s w))))"
    using Suc.IH [where w = ?w1] storeAuthentication_log [where w = ?w1]
    by (simp add: login.simps Let_def split: login_reply.splits option.splits)
  with w1 show ?case by (rule prefix_order.trans)
qed

lemma login_posts:
  "prefix (events w @ [PostLogin (createClient s) (email (config s)) (password (config s))])
     (events (snd (snd (login e (Suc n) s w))))"
proof -
  let ?w1 = "emit (PostLogin (createClient s) (email (config s)) (password (config s))) w"
  have "prefix (events ?w1) (events (snd (snd (login e (Suc n) s w))))"
    using login_log [where w = ?w1] storeAuthentication_log [where w = ?w1]
    by (simp add: login.simps Let_def split: login_reply.splits option.splits)
  then show ?thesis by simp
qed

lemma login_log_grows:
  "length (events w) < length (events (snd (snd (login e (Suc n) s w))))"
  using prefix_length_le [OF login_posts [where w = w and s = s and e = e and n = n]] by simp

subsection \<open>Authentication when the session in memory is not valid\<close>

lemma ensureAuthenticated_invalid:
  "\<not> isTokenValid e s w \<Longrightarrow>
   ensureAuthenticated e fuel s w =
     (case tryRestoreSession e s w of (restored, s1, w1) \<Rightarrow>
        if isTokenValid e s1 w1 then (Return (), s1, w1) else login e fuel s1 w1)"
  by (simp add: ensureAuthenticated_def split: prod.splits)

lemma ensureAuthenticated_invalid_log:
  assumes "\<not> isTokenValid e s w"
  shows "length (events w) < length (events (snd (snd (ensureAuthenticated e (Suc n) s w))))"
proof (cases "configManager s")
  case True
  obtain r s1 w1 where t: "tryRestoreSession e s w = (r, s1, w1)"
    by (cases "tryRestoreSession e s w") auto
  from True t have "length (events w) < length (events w1)"
    by (auto simp: tryRestoreSession_def getToken_def split: token_file.splits if_splits)
  moreover have "length (events w1) \<le> length (events (snd (snd (login e (Suc n) s1 w1))))"
    using login_log [where w = w1] by (simp add: prefix_length_le)
  ultimately show ?thesis
    using assms t by (simp add: ensureAuthenticated_invalid)
next
  case False
  then have "tryRestoreSession e s w = (False, s, w)"
    by (simp add: tryRestoreSession_def)
  then show ?thesis
    using assms login_log_grows [where w = w and e = e and n = n and s = s]
    by (simp add: ensureAuthenticated_invalid)
qed

lemma isTokenValid_later:
  assumes "clockMonotone e" and "\<not> isTokenValid e s w"
    and "length (events w) \<le> length (events w')"
  shows "\<not> isTokenValid e s w'"
proof -
  from assms(1,3) have "now e w \<le> now e w'"
    by (simp add: clockMonotone_def now_def)
  with assms(2) show ?thesis
    by (auto simp: isTokenValid_def split: if_splits)
qed

subsection \<open>Counting requests\<close>

lemma count_emit [simp]:
  "count P (emit ev w) = (if P ev then Suc (count P w) else count P w)"
  by (simp add: count_def)

lemma count_clearToken [simp]:
  "count P (clearToken w) = (if P DeleteToken then Suc (count P w) else count P w)"
  by (simp add: count_def)

lemma count_saveToken [simp]:
  "count P (saveToken t w) = (if P (WriteToken t) then Suc (count P w) else count P w)"
  by (simp add: count_def)

lemma count_saveSession [simp]:
  "count isPostLogin (saveSession s w) = count isPostLogin w"
  "count isGetConnections (saveSession s w) = count isGetConnections w"
  "count isGetGraph (saveSession s w) = count isGetGraph w"
  by (simp_all add: saveSession_def)

subsection \<open>What a login that returns has done\<close>

lemma storeAuthentication_Return:
  assumes "storeAuthentication e t usr s w = (Return (), s', w')"
  shows "\<exists>u uid. usr = Some u \<and> u_id u = Some uid
          \<and> jwtToken s' = Some (at_token t) \<and> tokenExpires s' = at_expires t * 1000
          \<and> userId s' = Some uid \<and> accountId s' = Some (generateAccountId e uid)
          \<and> config s' = config s \<and> baseUrl s' = baseUrl s
          \<and> patientId s' = patientId s \<and> configManager s' = configManager s
          \<and> w' = saveSession s' w"
  using assms by (auto simp: storeAuthentication_def Let_def split: option.splits)

lemma login_Return:
  assumes "login e fuel s w = (Return (), s', w')"
  shows "\<exists>k body d t usr u.
           count isPostLogin w' = Suc k
         \<and> loginReply e k (createClient s') (email (config s')) (password (config s'))
             = LoginBody body
         \<and> lr_status body = 0 \<and> lr_data body = Some d
         \<and> ld_authTicket d = Some t \<and> ld_user d = Some usr \<and> u_id usr = Some u
         \<and> jwtToken s' = Some (at_token t) \<and> tokenExpires s' = at_expires t * 1000
         \<and> userId s' = Some u \<and> accountId s' = Some (generateAccountId e u)"
  using assms
proof (induction fuel arbitrary: s w)
  case 0
  then show ?case by (simp add: login.simps)
next
  case (Suc n)
  let ?w1 = "emit (PostLogin (createClient s) (email (config s)) (password (config s))) w"
  let ?r = "loginReply e (count isPostLogin w) (createClient s) (email (config s))
              (password (config s))"
  show ?case
  proof (cases ?r)
    case (LoginFailure ae)
    with Suc.prems show ?thesis by (simp add: login.simps Let_def)
  next
    case (LoginBody body)
    show ?thesis
    proof (cases "lr_data body")
      case None
      with LoginBody Suc.prems show ?thesis by (simp add: login.simps Let_def)
    next
      case (Some d)
      show ?thesis
      proof (cases "ld_redirect d = Some True \<and> truthy (ld_region d)")
        case True
        with LoginBody Some Suc.prems
        have "login e n (redirectTo e (the (ld_region d)) s) ?w1 = (Return (), s', w')"
          by (simp add: login.simps Let_def)
        then show ?thesis by (rule Suc.IH)
      next
        case False
        with LoginBody Some Suc.prems
        have ok: "lr_status body = 0" "ld_authTicket d \<noteq> None"
          and st: "storeAuthentication e (the (ld_authTicket d)) (ld_user d) s ?w1
                    = (Return (), s', w')"
          by (auto simp add: login.simps Let_def split: if_splits)
        from ok obtain t where t: "ld_authTicket d = Some t" by auto
        from storeAuthentication_Return [OF st] obtain usr u where
          u: "ld_user d = Some usr" "u_id usr = Some u"
          and f: "jwtToken s' = Some (at_token (the (ld_authTicket d)))"
            "tokenExpires s' = at_expires (the (ld_authTicket d)) * 1000"
            "userId s' = Some u" "accountId s' = Some (generateAccountId e u)"
          and c: "config s' = config s" "baseUrl s' = baseUrl s"
          and w': "w' = saveSession s' ?w1"
          by blast
        have cc: "createClient s' = createClient s"
          using c by (simp add: createClient_def baseHeaders_def)
        have n: "count isPostLogin w' = Suc (count isPostLogin w)"
          using w' by simp
        have r: "loginReply e (count isPostLogin w) (createClient s') (email (config s'))
                   (password (config s')) = LoginBody body"
          using LoginBody c cc by simp
        show ?thesis
          using n r ok(1) Some t u f by auto
      qed
    qed
  qed
qed

lemma createAuthenticatedClient_headers:
  assumes "createAuthenticatedClient x = Inr c"
  shows "truthy (jwtToken x) \<and> truthy (accountId x)
       \<and> map_of (hc_headers c) ''Authorization'' = Some (''Bearer '' @ the (jwtToken x))
       \<and> map_of (hc_headers c) ''Account-Id'' = accountId x"
  using assms
  by (auto simp: createAuthenticatedClient_def baseHeaders_def truthy_def
           split: if_splits option.splits)

subsection \<open>What a login that throws has left behind\<close>

lemma redirectTo_fields [simp]:
  "jwtToken (redirectTo e r s) = jwtToken s"
  "tokenExpires (redirectTo e r s) = tokenExpires s"
  "userId (redirectTo e r s) = userId s"
  "accountId (redirectTo e r s) = accountId s"
  "patientId (redirectTo e r s) = patientId s"
  "configManager (redirectTo e r s) = configManager s"
  "region (config (redirectTo e r s)) = toUpperCase e r"
  "email (config (redirectTo e r s)) = email (config s)"
  "password (config (redirectTo e r s)) = password (config s)"
  "clientVersion (config (redirectTo e r s)) = clientVersion (config s)"
  "targetLow (config (redirectTo e r s)) = targetLow (config s)"
  "targetHigh (config (redirectTo e r s)) = targetHigh (config s)"
  "baseUrl (redirectTo e r s) =
     (if truthy (LIBRE_LINK_SERVERS e (toUpperCase e r))
      then LIBRE_LINK_SERVERS e (toUpperCase e r)
      else Some (''https://api-'' @ r @ ''.libreview.io''))"
  by (simp_all add: redirectTo_def Let_def)

lemma storeAuthentication_Throw:
  assumes "storeAuthentication e t usr s w = (Throw err, s', w')"
  shows "err = TypeError"
  using assms by (auto simp: storeAuthentication_def Let_def split: option.splits)

lemma login_step_cases:
  obtains (failure) ae where
      "nextLoginReply e s w = LoginFailure ae"
      "login e (Suc n) s w = (Throw (loginError s ae), s,
         emit (PostLogin (createClient s) (email (config s)) (password (config s))) w)"
  | (nodata) body where
      "nextLoginReply e s w = LoginBody body" "lr_data body = None"
      "login e (Suc n) s w = (Throw TypeError, s,
         emit (PostLogin (createClient s) (email (config s)) (password (config s))) w)"
  | (redirect) "isRedirect (nextLoginReply e s w)"
      "login e (Suc n) s w =
         login e n (redirectTo e (redirectRegion (nextLoginReply e s w)) s)
           (emit (PostLogin (createClient s) (email (config s)) (password (config s))) w)"
  | (invalid) body d where
      "nextLoginReply e s w = LoginBody body" "lr_data body = Some d"
      "\<not> isRedirect (nextLoginReply e s w)"
      "lr_status body \<noteq> 0 \<or> ld_authTicket d = None"
      "login e (Suc n) s w = (Throw InvalidLoginResponse, s,
         emit (PostLogin (createClient s) (email (config s)) (password (config s))) w)"
  | (store) body d t where
      "nextLoginReply e s w = LoginBody body" "lr_data body = Some d"
      "\<not> isRedirect (nextLoginReply e s w)"
      "lr_status body = 0" "ld_authTicket d = Some t"
      "login e (Suc n) s w =
         storeAuthentication e t (ld_user d) s
           (emit (PostLogin (createClient s) (email (config s)) (password (config s))) w)"
proof (cases "nextLoginReply e s w")
  case (LoginFailure ae)
  then have "login e (Suc n) s w = (Throw (loginError s ae), s,
         emit (PostLogin (createClient s) (email (config s)) (password (config s))) w)"
    by (simp add: login.simps nextLoginReply_def Let_def)
  with LoginFailure show ?thesis by (rule failure)
next
  case (LoginBody body)
  show ?thesis
  proof (cases "lr_data body")
    case None
    with LoginBody have "login e (Suc n) s w = (Throw TypeError, s,
         emit (PostLogin (createClient s) (email (config s)) (password (config s))) w)"
      by (simp add: login.simps nextLoginReply_def Let_def)
    with LoginBody None show ?thesis by (rule nodata)
  next
    case (Some d)
    show ?thesis
    proof (cases "ld_redirect d = Some True \<and> truthy (ld_region d)")
      case True
      then obtain r where r: "ld_region d = Some r"
        by (auto simp: truthy_def split: option.splits)
      from True LoginBody Some have i: "isRedirect (nextLoginReply e s w)" by simp
      from True LoginBody Some r have "login e (Suc n) s w =
         login e n (redirectTo e (redirectRegion (nextLoginReply e s w)) s)
           (emit (PostLogin (createClient s) (email (config s)) (password (config s))) w)"
        by (simp add: login.simps nextLoginReply_def Let_def)
      with i show ?thesis by (rule redirect)
    next
      case False
      with LoginBody Some have i: "\<not> isRedirect (nextLoginReply e s w)" by simp
      show ?thesis
      proof (cases "lr_status body \<noteq> 0 \<or> ld_authTicket d = None")
        case True
        with False LoginBody Some have "login e (Suc n) s w = (Throw InvalidLoginResponse, s,
           emit (PostLogin (createClient s) (email (config s)) (password (config s))) w)"
          by (auto simp add: login.simps nextLoginReply_def Let_def)
        with LoginBody Some i True show ?thesis by (rule invalid)
      next
        case nb: False
        then obtain t where t: "ld_authTicket d = Some t" by auto
        from nb have z: "lr_status body = 0" by simp
        from nb t False LoginBody Some have "login e (Suc n) s w =
           storeAuthentication e t (ld_user d) s
             (emit (PostLogin (createClient s) (email (config s)) (password (config s))) w)"
          by (auto simp add: login.simps nextLoginReply_def Let_def)
        with LoginBody Some i z t show ?thesis by (rule store)
      qed
    qed
  qed
qed

lemma afterRedirects_stays:
  "\<not> isRedirect (nextLoginReply e s w) \<Longrightarrow> afterRedirects e n s w = (s, w)"
  by (cases n) simp_all

lemma afterRedirects_fields:
  "jwtToken (fst (afterRedirects e n s w)) = jwtToken s
   \<and> tokenExpires (fst (afterRedirects e n s w)) = tokenExpires s
   \<and> userId (fst (afterRedirects e n s w)) = userId s
   \<and> accountId (fst (afterRedirects e n s w)) = accountId s
   \<and> patientId (fst (afterRedirects e n s w)) = patientId s
   \<and> configManager (fst (afterRedirects e n s w)) = configManager s
   \<and> email (config (fst (afterRedirects e n s w))) = email (config s)
   \<and> password (config (fst (afterRedirects e n s w))) = password (config s)"
  by (induction e n s w rule: afterRedirects.induct) simp_all

lemma redirectTo_twice: "redirectTo e r' (redirectTo e r s) = redirectTo e r' s"
  by (simp add: redirectTo_def Let_def)

lemma afterRedirects_lastRedirect:
  "fst (afterRedirects e n s w) =
     (case lastRedirect e n s w of None \<Rightarrow> s | Some r \<Rightarrow> redirectTo e r s)"
  by (induction e n s w rule: afterRedirects.induct)
     (simp_all add: redirectTo_twice split: option.splits)

lemma login_Throw:
  assumes "login e fuel s w = (Throw err, s', w')" and "err \<noteq> TypeError"
  shows "s' = fst (afterRedirects e fuel s w)"
  using assms(1)
proof (induction fuel arbitrary: s w)
  case 0
  then show ?case by (simp add: login.simps)
next
  case (Suc n)
  show ?case
  proof (cases rule: login_step_cases [of e s w n])
    case (failure ae)
    with Suc.prems show ?thesis by simp
  next
    case (nodata body)
    with Suc.prems assms(2) show ?thesis by simp
  next
    case redirect
    with Suc.prems Suc.IH [of "redirectTo e (redirectRegion (nextLoginReply e s w)) s"
        "emit (PostLogin (createClient s) (email (config s)) (password (config s))) w"]
    show ?thesis by simp
  next
    case (invalid body d)
    from invalid(5) Suc.prems have "s' = s" by simp
    with afterRedirects_stays [OF invalid(3), of "Suc n"] show ?thesis by simp
  next
    case (store body d t)
    with Suc.prems assms(2) storeAuthentication_Throw [of e t "ld_user d" s _ err s' w']
    show ?thesis by simp
  qed
qed

subsection \<open>Redirects\<close>

lemma storeAuthentication_outcome:
  "fst (storeAuthentication e t u s w) \<noteq> OutOfFuel
   \<and> count isPostLogin (snd (snd (storeAuthentication e t u s w))) = count isPostLogin w"
  by (simp add: storeAuthentication_def Let_def split: option.splits)

lemma nextLoginReply_emit:
  "count isPostLogin w' = count isPostLogin w + j \<Longrightarrow>
   nextLoginReply e s w' =
     loginReply e (count isPostLogin w + j) (createClient s) (email (config s)) (password (config s))"
  by (simp add: nextLoginReply_def)

lemma login_stops:
  assumes "\<not> isRedirect (nextLoginReply e s w)"
  shows "fst (login e (Suc n) s w) \<noteq> OutOfFuel
       \<and> count isPostLogin (snd (snd (login e (Suc n) s w))) = Suc (count isPostLogin w)"
proof (cases rule: login_step_cases [of e s w n])
  case (failure ae)
  then show ?thesis by simp
next
  case (nodata body)
  then show ?thesis by simp
next
  case redirect
  with assms show ?thesis by simp
next
  case (invalid body d)
  then show ?thesis by simp
next
  case (store body d t)
  then show ?thesis
    using storeAuthentication_outcome
      [of e t "ld_user d" s
          "emit (PostLogin (createClient s) (email (config s)) (password (config s))) w"]
    by simp
qed

lemma login_redirect_step:
  assumes "isRedirect (nextLoginReply e s w)"
  shows "login e (Suc n) s w =
           login e n (redirectTo e (redirectRegion (nextLoginReply e s w)) s)
             (emit (PostLogin (createClient s) (email (config s)) (password (config s))) w)"
proof (cases rule: login_step_cases [of e s w n])
  case (failure ae)
  with assms show ?thesis by simp
next
  case (nodata body)
  with assms show ?thesis by simp
next
  case redirect
  then show ?thesis by simp
next
  case (invalid body d)
  with assms show ?thesis by simp
next
  case (store body d t)
  with assms show ?thesis by simp
qed

lemma login_redirects_then:
  assumes "\<forall>j<k. \<forall>c em pw. isRedirect (loginReply e (count isPostLogin w + j) c em pw)"
    and "\<forall>c em pw. \<not> isRedirect (loginReply e (count isPostLogin w + k) c em pw)"
    and "k < fuel"
  shows "fst (login e fuel s w) \<noteq> OutOfFuel
       \<and> count isPostLogin (snd (snd (login e fuel s w))) = count isPostLogin w + k + 1"
  using assms
proof (induction k arbitrary: s w fuel)
  case 0
  then obtain n where n: "fuel = Suc n" by (cases fuel) auto
  from 0 have "\<not> isRedirect (nextLoginReply e s w)" by (simp add: nextLoginReply_def)
  from login_stops [OF this, of n] n show ?case by simp
next
  case (Suc k)
  then obtain n where n: "fuel = Suc n" and kn: "k < n" by (cases fuel) auto
  let ?w1 = "emit (PostLogin (createClient s) (email (config s)) (password (config s))) w"
  let ?s1 = "redirectTo e (redirectRegion (nextLoginReply e s w)) s"
  from Suc.prems(1) have "\<forall>c em pw. isRedirect (loginReply e (count isPostLogin w + 0) c em pw)"
    by blast
  then have "isRedirect (nextLoginReply e s w)"
    by (simp add: nextLoginReply_def)
  then have step: "login e (Suc n) s w = login e n ?s1 ?w1" by (rule login_redirect_step)
  have c: "count isPostLogin ?w1 = Suc (count isPostLogin w)" by simp
  have a: "\<forall>j<k. \<forall>c em pw. isRedirect (loginReply e (count isPostLogin ?w1 + j) c em pw)"
  proof (intro allI impI)
    fix j c em pw assume "j < k"
    then have "Suc j < Suc k" by simp
    with Suc.prems(1) have "isRedirect (loginReply e (count isPostLogin w + Suc j) c em pw)"
      by blast
    then show "isRedirect (loginReply e (count isPostLogin ?w1 + j) c em pw)" by simp
  qed
  have b: "\<forall>c em pw. \<not> isRedirect (loginReply e (count isPostLogin ?w1 + k) c em pw)"
    using Suc.prems(2) by simp
  from Suc.IH [OF a b kn, of ?s1] step n show ?case by simp
qed

lemma login_always_redirected:
  assumes "\<forall>j c em pw. isRedirect (loginReply e j c em pw)"
  shows "fst (login e fuel s w) = OutOfFuel
       \<and> count isPostLogin (snd (snd (login e fuel s w))) = count isPostLogin w + fuel"
proof (induction fuel arbitrary: s w)
  case 0
  show ?case by (simp add: login.simps)
next
  case (Suc n)
  let ?w1 = "emit (PostLogin (createClient s) (email (config s)) (password (config s))) w"
  let ?s1 = "redirectTo e (redirectRegion (nextLoginReply e s w)) s"
  from assms have "isRedirect (nextLoginReply e s w)" by (simp add: nextLoginReply_def)
  then have "login e (Suc n) s w = login e n ?s1 ?w1" by (rule login_redirect_step)
  with Suc.IH [of ?s1 ?w1] show ?case by simp
qed

subsection \<open>Scenario facts\<close>

lemma asciiUpperCase_regions:
  "asciiUpperCase ''us'' = ''US''" "asciiUpperCase ''eu'' = ''EU''"
  "asciiUpperCase ''jp'' = ''JP''"
  by code_simp+

lemma servers_simps [simp]:
  "servers ''US'' = Some ''https://api-us.libreview.io''"
  "servers ''EU'' = Some ''https://api-eu.libreview.io''"
  "servers ''JP'' = None"
  by (simp_all add: servers_def)

lemma redirect_simps [simp]:
  "isRedirect (redirect r) = (r \<noteq> [])"
  "redirectRegion (redirect r) = r"
  "\<not> isRedirect (grant t u ex)" "\<not> isRedirect (LoginFailure ae)"
  by (simp_all add: redirect_def grant_def truthy_def)

lemma scenario_envs [simp]:
  "LIBRE_LINK_SERVERS envRedirectReject = servers"
  "LIBRE_LINK_SERVERS envTwoRedirects = servers"
  "LIBRE_LINK_SERVERS envCrossRedirect = servers"
  "LIBRE_LINK_SERVERS envTwo401 = servers"
  "LIBRE_LINK_SERVERS envAlways401 = servers"
  "LIBRE_LINK_SERVERS (envRedirectGrant r) = servers"
  "LIBRE_LINK_SERVERS envUnauthorizedRejected = servers"
  "toUpperCase envRedirectReject = asciiUpperCase"
  "toUpperCase envTwoRedirects = asciiUpperCase"
  "toUpperCase envCrossRedirect = asciiUpperCase"
  "toUpperCase (envRedirectGrant r) = asciiUpperCase"
  "sha256_hex envRedirectReject u = ''sha256:'' @ u"
  "sha256_hex envTwoRedirects u = ''sha256:'' @ u"
  "sha256_hex envCrossRedirect u = ''sha256:'' @ u"
  "sha256_hex envTwo401 u = ''sha256:'' @ u"
  "sha256_hex envAlways401 u = ''sha256:'' @ u"
  "sha256_hex (envRedirectGrant r) u = ''sha256:'' @ u"
  by (simp_all add: envRedirectReject_def envTwoRedirects_def envCrossRedirect_def
        envTwo401_def envAlways401_def envRedirectGrant_def envUnauthorizedRejected_def)

lemma login_granted:
  assumes "nextLoginReply e s w = grant t u ex"
  shows "login e (Suc n) s w =
           storeAuthentication e \<lparr>at_token = t, at_expires = ex\<rparr> (Some \<lparr>u_id = Some u\<rparr>) s
             (emit (PostLogin (createClient s) (email (config s)) (password (config s))) w)"
  using assms by (simp add: login.simps nextLoginReply_def grant_def Let_def)

lemma login_rejected:
  assumes "nextLoginReply e s w = LoginFailure ae"
  shows "login e (Suc n) s w =
           (Throw (loginError s ae), s,
            emit (PostLogin (createClient s) (email (config s)) (password (config s))) w)"
  using assms by (simp add: login.simps nextLoginReply_def Let_def)

subsection \<open>Re-login after a 401\<close>


lemma ensureAuthenticated_valid:
  "isTokenValid e s w \<Longrightarrow> ensureAuthenticated e fuel s w = (Return (), s, w)"
  by (simp add: ensureAuthenticated_def)




lemma getConnections_answered:
  assumes "isTokenValid e s w" and "createAuthenticatedClient s = Inr c"
    and "connectionsReply e (count isGetConnections w) c = ConnectionsBody d"
  shows "getConnections e (Suc n) s w =
           (Return (case d of None \<Rightarrow> [] | Some cs \<Rightarrow> cs), s, emit (GetConnections c) w)"
  using assms by (simp add: getConnections.simps ensureAuthenticated_valid Let_def)

lemma getConnections_refused:
  assumes "isTokenValid e s w" and "createAuthenticatedClient s = Inr c"
    and "connectionsReply e (count isGetConnections w) c = ConnectionsFailure ae"
    and "ae_status ae \<noteq> Some 401"
  shows "getConnections e (Suc n) s w = (Throw (Axios ae), s, emit (GetConnections c) w)"
  using assms by (simp add: getConnections.simps ensureAuthenticated_valid Let_def)






subsection \<open>The graph call\<close>






subsection \<open>Every data request in the log carries the credentials\<close>

lemma createAuthenticatedClient_hasCredentials:
  "createAuthenticatedClient s = Inr c \<Longrightarrow> hasCredentials c"
  by (auto simp: createAuthenticatedClient_def hasCredentials_def baseHeaders_def truthy_def
           split: if_splits option.splits)

lemma credentials_emit [simp]:
  "list_all carriesCredentials (events (emit ev w)) =
     (list_all carriesCredentials (events w) \<and> carriesCredentials ev)"
  by simp

lemma credentials_clearToken [simp]:
  "list_all carriesCredentials (events (clearToken w)) = list_all carriesCredentials (events w)"
  by simp

lemma credentials_saveSession [simp]:
  "list_all carriesCredentials (events (saveSession s w)) = list_all carriesCredentials (events w)"
  by (simp add: saveSession_def)

lemma credentials_storeAuthentication:
  "list_all carriesCredentials (events w) \<Longrightarrow>
   list_all carriesCredentials (events (snd (snd (storeAuthentication e t u s w))))"
  by (simp add: storeAuthentication_def Let_def split: option.splits)

lemma credentials_login:
  "list_all carriesCredentials (events w) \<Longrightarrow>
   list_all carriesCredentials (events (snd (snd (login e fuel s w))))"
proof (induction fuel arbitrary: s w)
  case 0
  then show ?case by (simp add: login.simps)
next
  case (Suc n)
  let ?w1 = "emit (PostLogin (createClient s) (email (config s)) (password (config s))) w"
  from Suc.prems have w1: "list_all carriesCredentials (events ?w1)" by simp
  show ?case
  proof (cases rule: login_step_cases [of e s w n])
    case (failure ae)
    with w1 show ?thesis by simp
  next
    case (nodata body)
    with w1 show ?thesis by simp
  next
    case redirect
    with Suc.IH [OF w1] show ?thesis by simp
  next
    case (invalid body d)
    with w1 show ?thesis by simp
  next
    case (store body d t)
    with credentials_storeAuthentication [OF w1] show ?thesis by simp
  qed
qed

lemma credentials_tryRestoreSession:
  "list_all carriesCredentials (events w) \<Longrightarrow>
   list_all carriesCredentials (events (snd (snd (tryRestoreSession e s w))))"
  by (simp add: tryRestoreSession_def getToken_def split: token_file.splits)

lemma credentials_ensureAuthenticated:
  assumes "list_all carriesCredentials (events w)"
  shows "list_all carriesCredentials (events (snd (snd (ensureAuthenticated e fuel s w))))"
proof (cases "isTokenValid e s w")
  case True
  with assms show ?thesis by (simp add: ensureAuthenticated_valid)
next
  case False
  obtain r s1 w1 where t: "tryRestoreSession e s w = (r, s1, w1)"
    by (cases "tryRestoreSession e s w") auto
  with credentials_tryRestoreSession [OF assms, of e s]
  have "list_all carriesCredentials (events w1)" by simp
  with credentials_login [of w1 e fuel s1] False t show ?thesis
    by (simp add: ensureAuthenticated_invalid)
qed

lemma credentials_getConnections:
  "list_all carriesCredentials (events w) \<Longrightarrow>
   list_all carriesCredentials (events (snd (snd (getConnections e fuel s w))))"
proof (induction fuel arbitrary: s w)
  case 0
  then show ?case by (simp add: getConnections.simps)
next
  case (Suc n)
  obtain r1 s1 w1 where e1: "ensureAuthenticated e (Suc n) s w = (r1, s1, w1)"
    by (cases "ensureAuthenticated e (Suc n) s w") auto
  with credentials_ensureAuthenticated [OF Suc.prems, of e "Suc n" s]
  have w1: "list_all carriesCredentials (events w1)" by simp
  show ?case
  proof (cases r1)
    case (Throw err)
    with e1 w1 show ?thesis by (simp add: getConnections.simps)
  next
    case OutOfFuel
    with e1 w1 show ?thesis by (simp add: getConnections.simps)
  next
    case (Return u)
    show ?thesis
    proof (cases "createAuthenticatedClient s1")
      case (Inl err)
      with Return e1 w1 show ?thesis by (simp add: getConnections.simps)
    next
      case (Inr c)
      then have hc: "hasCredentials c" by (rule createAuthenticatedClient_hasCredentials)
      let ?w2 = "emit (GetConnections c) w1"
      from w1 hc have w2: "list_all carriesCredentials (events ?w2)" by simp
      show ?thesis
      proof (cases "connectionsReply e (count isGetConnections w1) c")
        case (ConnectionsBody d)
        with Return Inr e1 w2 show ?thesis by (simp add: getConnections.simps Let_def)
      next
        case (ConnectionsFailure ae)
        show ?thesis
        proof (cases "ae_status ae = Some 401")
          case False
          with ConnectionsFailure Return Inr e1 w2 show ?thesis
            by (simp add: getConnections.simps Let_def)
        next
          case True
          let ?w3 = "if configManager s1 then clearToken ?w2 else ?w2"
          from w2 have w3: "list_all carriesCredentials (events ?w3)" by simp
          obtain r3 s3 w4 where
            e3: "ensureAuthenticated e (Suc n) (s1\<lparr>jwtToken := None\<rparr>) ?w3 = (r3, s3, w4)"
            by (cases "ensureAuthenticated e (Suc n) (s1\<lparr>jwtToken := None\<rparr>) ?w3") auto
          with credentials_ensureAuthenticated [OF w3, of e "Suc n" "s1\<lparr>jwtToken := None\<rparr>"]
          have w4: "list_all carriesCredentials (events w4)" by simp
          from Suc.IH [OF w4, of s3]
          have ih: "list_all carriesCredentials (events (snd (snd (getConnections e n s3 w4))))" .
          have "getConnections e (Suc n) s w =
                  (case r3 of Throw err \<Rightarrow> (Throw err, s3, w4)
                   | OutOfFuel \<Rightarrow> (OutOfFuel, s3, w4)
                   | Return u' \<Rightarrow> getConnections e n s3 w4)"
            using True ConnectionsFailure Return Inr e1 e3
            by (simp add: getConnections.simps Let_def split: outcome.splits)
          with w4 ih show ?thesis by (simp split: outcome.splits)
        qed
      qed
    qed
  qed
qed

lemma credentials_getPatientId:
  assumes "list_all carriesCredentials (events w)"
  shows "list_all carriesCredentials (events (snd (snd (getPatientId e fuel s w))))"
proof (cases "truthy (patientId s)")
  case True
  with assms show ?thesis by (simp add: getPatientId_def)
next
  case False
  obtain r s1 w1 where g: "getConnections e fuel s w = (r, s1, w1)"
    by (cases "getConnections e fuel s w") auto
  with credentials_getConnections [OF assms, of e fuel s]
  have "list_all carriesCredentials (events w1)" by simp
  with False g show ?thesis
    by (simp add: getPatientId_def split: outcome.splits list.splits)
qed

lemma credentials_getGraphData:
  "list_all carriesCredentials (events w) \<Longrightarrow>
   list_all carriesCredentials (events (snd (snd (getGraphData e fuel s w))))"
proof (induction fuel arbitrary: s w)
  case 0
  then show ?case by (simp add: getGraphData.simps)
next
  case (Suc n)
  obtain r1 s1 w1 where e1: "ensureAuthenticated e (Suc n) s w = (r1, s1, w1)"
    by (cases "ensureAuthenticated e (Suc n) s w") auto
  with credentials_ensureAuthenticated [OF Suc.prems, of e "Suc n" s]
  have w1: "list_all carriesCredentials (events w1)" by simp
  show ?case
  proof (cases r1)
    case (Throw err)
    with e1 w1 show ?thesis by (simp add: getGraphData.simps)
  next
    case OutOfFuel
    with e1 w1 show ?thesis by (simp add: getGraphData.simps)
  next
    case (Return u)
    obtain r2 s2 w2 where p: "getPatientId e (Suc n) s1 w1 = (r2, s2, w2)"
      by (cases "getPatientId e (Suc n) s1 w1") auto
    with credentials_getPatientId [OF w1, of e "Suc n" s1]
    have w2: "list_all carriesCredentials (events w2)" by simp
    show ?thesis
    proof (cases r2)
      case (Throw err)
      with Return e1 p w2 show ?thesis by (simp add: getGraphData.simps)
    next
      case OutOfFuel
      with Return e1 p w2 show ?thesis by (simp add: getGraphData.simps)
    next
      case pid: (Return pid)
      show ?thesis
      proof (cases "createAuthenticatedClient s2")
        case (Inl err)
        with pid Return e1 p w2 show ?thesis by (simp add: getGraphData.simps)
      next
        case (Inr c)
        then have hc: "hasCredentials c" by (rule createAuthenticatedClient_hasCredentials)
        let ?w3 = "emit (GetGraph c (ENDPOINTS_graph pid)) w2"
        from w2 hc have w3: "list_all carriesCredentials (events ?w3)" by simp
        show ?thesis
        proof (cases "graphReply e (count isGetGraph w2) c (ENDPOINTS_graph pid)")
          case (GraphBody d)
          with pid Return Inr e1 p w3 show ?thesis by (simp add: getGraphData.simps Let_def)
        next
          case (GraphFailure ae)
          show ?thesis
          proof (cases "ae_status ae = Some 401")
            case False
            with GraphFailure pid Return Inr e1 p w3 show ?thesis
              by (simp add: getGraphData.simps Let_def)
          next
            case True
            let ?w4 = "if configManager s2 then clearToken ?w3 else ?w3"
            from w3 have w4: "list_all carriesCredentials (events ?w4)" by simp
            obtain r4 s4 w5 where
              e4: "ensureAuthenticated e (Suc n) (s2\<lparr>jwtToken := None\<rparr>) ?w4 = (r4, s4, w5)"
              by (cases "ensureAuthenticated e (Suc n) (s2\<lparr>jwtToken := None\<rparr>) ?w4") auto
            with credentials_ensureAuthenticated [OF w4, of e "Suc n" "s2\<lparr>jwtToken := None\<rparr>"]
            have w5: "list_all carriesCredentials (events w5)" by simp
            from Suc.IH [OF w5, of s4]
            have ih: "list_all carriesCredentials (events (snd (snd (getGraphData e n s4 w5))))" .
            have "getGraphData e (Suc n) s w =
                    (case r4 of Throw err \<Rightarrow> (Throw err, s4, w5)
                     | OutOfFuel \<Rightarrow> (OutOfFuel, s4, w5)
                     | Return u' \<Rightarrow> getGraphData e n s4 w5)"
              using True GraphFailure pid Return Inr e1 p e4
              by (simp add: getGraphData.simps Let_def split: outcome.splits)
            with w5 ih show ?thesis by (simp split: outcome.splits)
          qed
        qed
      qed
    qed
  qed
qed

subsection \<open>More fuel does not change a result\<close>

lemma login_fuel:
  "fst (login e n s w) \<noteq> OutOfFuel \<Longrightarrow> login e (n + m) s w = login e n s w"
proof (induction n arbitrary: s w)
  case 0
  then show ?case by (simp add: login.simps)
next
  case (Suc n)
  show ?case
  proof (cases "isRedirect (nextLoginReply e s w)")
    case True
    from login_redirect_step [OF True, of n] login_redirect_step [OF True, of "n + m"]
      Suc.prems Suc.IH
    show ?thesis by simp
  next
    case False
    then show ?thesis
      by (cases "nextLoginReply e s w")
         (auto simp add: login.simps nextLoginReply_def Let_def split: option.splits)
  qed
qed

lemma ensureAuthenticated_fuel:
  "fst (ensureAuthenticated e n s w) \<noteq> OutOfFuel \<Longrightarrow>
   ensureAuthenticated e (n + m) s w = ensureAuthenticated e n s w"
  using login_fuel [of e n _ _ m]
  by (auto simp add: ensureAuthenticated_def split: prod.splits)

lemma getConnections_fuel:
  "fst (getConnections e n s w) \<noteq> OutOfFuel \<Longrightarrow>
   getConnections e (n + m) s w = getConnections e n s w"
proof (induction n arbitrary: s w)
  case 0
  then show ?case by (simp add: getConnections.simps)
next
  case (Suc n)
  obtain r1 s1 w1 where e1: "ensureAuthenticated e (Suc n) s w = (r1, s1, w1)"
    by (cases "ensureAuthenticated e (Suc n) s w") auto
  with Suc.prems have r1: "r1 \<noteq> OutOfFuel"
    by (auto simp add: getConnections.simps)
  with e1 ensureAuthenticated_fuel [of e "Suc n" s w m]
  have e1': "ensureAuthenticated e (Suc (n + m)) s w = (r1, s1, w1)" by simp
  show ?case
  proof (cases "\<exists>c ae. r1 = Return () \<and> createAuthenticatedClient s1 = Inr c
           \<and> connectionsReply e (count isGetConnections w1) c = ConnectionsFailure ae
           \<and> ae_status ae = Some 401")
    case False
    with e1 e1' show ?thesis
      by (auto simp add: getConnections.simps Let_def
               split: outcome.splits sum.splits connections_reply.splits)
  next
    case True
    then obtain c ae where h: "r1 = Return ()" "createAuthenticatedClient s1 = Inr c"
      "connectionsReply e (count isGetConnections w1) c = ConnectionsFailure ae"
      "ae_status ae = Some 401"
      by blast
    let ?w3 = "if configManager s1 then clearToken (emit (GetConnections c) w1)
               else emit (GetConnections c) w1"
    obtain r3 s3 w4 where
      e3: "ensureAuthenticated e (Suc n) (s1\<lparr>jwtToken := None\<rparr>) ?w3 = (r3, s3, w4)"
      by (cases "ensureAuthenticated e (Suc n) (s1\<lparr>jwtToken := None\<rparr>) ?w3") auto
    have g: "getConnections e (Suc n) s w =
               (case r3 of Throw err \<Rightarrow> (Throw err, s3, w4)
                | OutOfFuel \<Rightarrow> (OutOfFuel, s3, w4)
                | Return u \<Rightarrow> getConnections e n s3 w4)"
      using e1 h e3 by (simp add: getConnections.simps Let_def split: outcome.splits)
    with Suc.prems have r3: "r3 \<noteq> OutOfFuel" by auto
    with e3 ensureAuthenticated_fuel [of e "Suc n" "s1\<lparr>jwtToken := None\<rparr>" ?w3 m]
    have e3': "ensureAuthenticated e (Suc (n + m)) (s1\<lparr>jwtToken := None\<rparr>) ?w3 = (r3, s3, w4)"
      by simp
    have g': "getConnections e (Suc (n + m)) s w =
               (case r3 of Throw err \<Rightarrow> (Throw err, s3, w4)
                | OutOfFuel \<Rightarrow> (OutOfFuel, s3, w4)
                | Return u \<Rightarrow> getConnections e (n + m) s3 w4)"
      using e1' h e3' by (simp add: getConnections.simps Let_def split: outcome.splits)
    show ?thesis
    proof (cases r3)
      case (Return u)
      with g Suc.prems have "fst (getConnections e n s3 w4) \<noteq> OutOfFuel" by simp
      from Suc.IH [OF this] g g' Return show ?thesis by simp
    next
      case (Throw err)
      with g g' show ?thesis by simp
    next
      case OutOfFuel
      with r3 show ?thesis by simp
    qed
  qed
qed

lemma getPatientId_fuel:
  "fst (getPatientId e n s w) \<noteq> OutOfFuel \<Longrightarrow>
   getPatientId e (n + m) s w = getPatientId e n s w"
proof (cases "truthy (patientId s)")
  case True
  then show ?thesis by (simp add: getPatientId_def)
next
  case False
  assume a: "fst (getPatientId e n s w) \<noteq> OutOfFuel"
  obtain r s1 w1 where g: "getConnections e n s w = (r, s1, w1)"
    by (cases "getConnections e n s w") auto
  with a False have "r \<noteq> OutOfFuel"
    by (auto simp add: getPatientId_def)
  with g getConnections_fuel [of e n s w m]
  have "getConnections e (n + m) s w = getConnections e n s w" by simp
  then show ?thesis by (simp add: getPatientId_def)
qed

lemma getGraphData_fuel:
  "fst (getGraphData e n s w) \<noteq> OutOfFuel \<Longrightarrow>
   getGraphData e (n + m) s w = getGraphData e n s w"
proof (induction n arbitrary: s w)
  case 0
  then show ?case by (simp add: getGraphData.simps)
next
  case (Suc n)
  obtain r1 s1 w1 where e1: "ensureAuthenticated e (Suc n) s w = (r1, s1, w1)"
    by (cases "ensureAuthenticated e (Suc n) s w") auto
  with Suc.prems have r1: "r1 \<noteq> OutOfFuel"
    by (auto simp add: getGraphData.simps)
  with e1 ensureAuthenticated_fuel [of e "Suc n" s w m]
  have e1': "ensureAuthenticated e (Suc (n + m)) s w = (r1, s1, w1)" by simp
  obtain r2 s2 w2 where p: "getPatientId e (Suc n) s1 w1 = (r2, s2, w2)"
    by (cases "getPatientId e (Suc n) s1 w1") auto
  show ?case
  proof (cases r1)
    case OutOfFuel
    with r1 show ?thesis by simp
  next
    case (Throw err)
    with e1 e1' show ?thesis by (simp add: getGraphData.simps)
  next
    case (Return u)
    with Suc.prems e1 p have r2: "r2 \<noteq> OutOfFuel"
      by (auto simp add: getGraphData.simps)
    with p getPatientId_fuel [of e "Suc n" s1 w1 m]
    have p': "getPatientId e (Suc (n + m)) s1 w1 = (r2, s2, w2)" by simp
    show ?thesis
    proof (cases "\<exists>pid c ae. r2 = Return pid \<and> createAuthenticatedClient s2 = Inr c
           \<and> graphReply e (count isGetGraph w2) c (ENDPOINTS_graph pid) = GraphFailure ae
           \<and> ae_status ae = Some 401")
      case False
      with Return e1 e1' p p' show ?thesis
        by (auto simp add: getGraphData.simps Let_def
                 split: outcome.splits sum.splits graph_reply.splits)
    next
      case True
      then obtain pid c ae where h: "r2 = Return pid" "createAuthenticatedClient s2 = Inr c"
        "graphReply e (count isGetGraph w2) c (ENDPOINTS_graph pid) = GraphFailure ae"
        "ae_status ae = Some 401"
        by blast
      let ?w4 = "if configManager s2 then clearToken (emit (GetGraph c (ENDPOINTS_graph pid)) w2)
                 else emit (GetGraph c (ENDPOINTS_graph pid)) w2"
      obtain r4 s4 w5 where
        e4: "ensureAuthenticated e (Suc n) (s2\<lparr>jwtToken := None\<rparr>) ?w4 = (r4, s4, w5)"
        by (cases "ensureAuthenticated e (Suc n) (s2\<lparr>jwtToken := None\<rparr>) ?w4") auto
      have g: "getGraphData e (Suc n) s w =
                 (case r4 of Throw err \<Rightarrow> (Throw err, s4, w5)
                  | OutOfFuel \<Rightarrow> (OutOfFuel, s4, w5)
                  | Return u \<Rightarrow> getGraphData e n s4 w5)"
        using Return e1 p h e4 by (simp add: getGraphData.simps Let_def split: outcome.splits)
      with Suc.prems have r4: "r4 \<noteq> OutOfFuel" by auto
      with e4 ensureAuthenticated_fuel [of e "Suc n" "s2\<lparr>jwtToken := None\<rparr>" ?w4 m]
      have e4': "ensureAuthenticated e (Suc (n + m)) (s2\<lparr>jwtToken := None\<rparr>) ?w4 = (r4, s4, w5)"
        by simp
      have g': "getGraphData e (Suc (n + m)) s w =
                 (case r4 of Throw err \<Rightarrow> (Throw err, s4, w5)
                  | OutOfFuel \<Rightarrow> (OutOfFuel, s4, w5)
                  | Return u \<Rightarrow> getGraphData e (n + m) s4 w5)"
        using Return e1' p' h e4' by (simp add: getGraphData.simps Let_def split: outcome.splits)
      show ?thesis
      proof (cases r4)
        case Return4: (Return u4)
        with g Suc.prems have "fst (getGraphData e n s4 w5) \<noteq> OutOfFuel" by simp
        from Suc.IH [OF this] g g' Return4 show ?thesis by simp
      next
        case (Throw err)
        with g g' show ?thesis by simp
      next
        case OutOfFuel
        with r4 show ?thesis by simp
      qed
    qed
  qed
qed

subsection \<open>The requests of the data calls\<close>

lemma ensureAuthenticated_log:
  "prefix (events w) (events (snd (snd (ensureAuthenticated e fuel s w))))"
proof (cases "isTokenValid e s w")
  case True
  then show ?thesis by (simp add: ensureAuthenticated_valid)
next
  case False
  obtain r s1 w1 where t: "tryRestoreSession e s w = (r, s1, w1)"
    by (cases "tryRestoreSession e s w") auto
  with tryRestoreSession_log [of w e s] have a: "prefix (events w) (events w1)" by simp
  have "prefix (events w1) (events (snd (snd (login e fuel s1 w1))))" by (rule login_log)
  with a have "prefix (events w) (events (snd (snd (login e fuel s1 w1))))"
    by (rule prefix_order.trans)
  with a False t show ?thesis by (simp add: ensureAuthenticated_invalid)
qed

lemma getConnections_sends:
  "prefix (events w) (events (snd (snd (getConnections e fuel s w))))
   \<and> (\<forall>n s1 w1 c. fuel = Suc n \<and> ensureAuthenticated e (Suc n) s w = (Return (), s1, w1)
          \<and> createAuthenticatedClient s1 = Inr c
        \<longrightarrow> prefix (events w1 @ [GetConnections c])
              (events (snd (snd (getConnections e fuel s w)))))"
proof (induction fuel arbitrary: s w)
  case 0
  show ?case by (simp add: getConnections.simps)
next
  case (Suc n)
  obtain r1 s1 w1 where e1: "ensureAuthenticated e (Suc n) s w = (r1, s1, w1)"
    by (cases "ensureAuthenticated e (Suc n) s w") auto
  with ensureAuthenticated_log [of w e "Suc n" s]
  have w1: "prefix (events w) (events w1)" by simp
  show ?case
  proof (cases "\<exists>c. r1 = Return () \<and> createAuthenticatedClient s1 = Inr c")
    case False
    with e1 w1 show ?thesis
      by (auto simp add: getConnections.simps split: outcome.splits sum.splits)
  next
    case True
    then obtain c where c: "r1 = Return ()" "createAuthenticatedClient s1 = Inr c" by blast
    let ?w2 = "emit (GetConnections c) w1"
    have sent: "prefix (events w1 @ [GetConnections c])
                  (events (snd (snd (getConnections e (Suc n) s w))))"
    proof (cases "connectionsReply e (count isGetConnections w1) c")
      case (ConnectionsBody d)
      with e1 c show ?thesis by (simp add: getConnections.simps Let_def)
    next
      case (ConnectionsFailure ae)
      show ?thesis
      proof (cases "ae_status ae = Some 401")
        case False
        with ConnectionsFailure e1 c show ?thesis by (simp add: getConnections.simps Let_def)
      next
        case True
        let ?w3 = "if configManager s1 then clearToken ?w2 else ?w2"
        have p3: "prefix (events ?w2) (events ?w3)" by simp
        obtain r3 s3 w4 where
          e3: "ensureAuthenticated e (Suc n) (s1\<lparr>jwtToken := None\<rparr>) ?w3 = (r3, s3, w4)"
          by (cases "ensureAuthenticated e (Suc n) (s1\<lparr>jwtToken := None\<rparr>) ?w3") auto
        with ensureAuthenticated_log [of ?w3 e "Suc n" "s1\<lparr>jwtToken := None\<rparr>"]
        have "prefix (events ?w3) (events w4)" by simp
        with p3 have p4: "prefix (events ?w2) (events w4)" by (rule prefix_order.trans)
        from Suc.IH [where s = s3 and w = w4]
        have "prefix (events w4) (events (snd (snd (getConnections e n s3 w4))))" by blast
        with p4 have p5: "prefix (events ?w2) (events (snd (snd (getConnections e n s3 w4))))"
          by (rule prefix_order.trans)
        have "getConnections e (Suc n) s w =
                (case r3 of Throw err \<Rightarrow> (Throw err, s3, w4)
                 | OutOfFuel \<Rightarrow> (OutOfFuel, s3, w4)
                 | Return u' \<Rightarrow> getConnections e n s3 w4)"
          using True ConnectionsFailure c e1 e3
          by (simp add: getConnections.simps Let_def split: outcome.splits)
        with p4 p5 show ?thesis by (simp split: outcome.splits)
      qed
    qed
    have "prefix (events w1) (events w1 @ [GetConnections c])" by simp
    with w1 have "prefix (events w) (events w1 @ [GetConnections c])"
      by (rule prefix_order.trans)
    from this sent have "prefix (events w) (events (snd (snd (getConnections e (Suc n) s w))))"
      by (rule prefix_order.trans)
    with sent e1 c show ?thesis by simp
  qed
qed

lemma getPatientId_log:
  "prefix (events w) (events (snd (snd (getPatientId e fuel s w))))"
proof (cases "truthy (patientId s)")
  case True
  then show ?thesis by (simp add: getPatientId_def)
next
  case False
  obtain r s1 w1 where g: "getConnections e fuel s w = (r, s1, w1)"
    by (cases "getConnections e fuel s w") auto
  with getConnections_sends [of w e fuel s] have "prefix (events w) (events w1)" by simp
  with False g show ?thesis
    by (simp add: getPatientId_def split: outcome.splits list.splits)
qed

lemma getGraphData_sends:
  "prefix (events w) (events (snd (snd (getGraphData e fuel s w))))
   \<and> (\<forall>n s1 w1 pid s2 w2 c.
          fuel = Suc n \<and> ensureAuthenticated e (Suc n) s w = (Return (), s1, w1)
          \<and> getPatientId e (Suc n) s1 w1 = (Return pid, s2, w2)
          \<and> createAuthenticatedClient s2 = Inr c
        \<longrightarrow> prefix (events w2 @ [GetGraph c (ENDPOINTS_graph pid)])
              (events (snd (snd (getGraphData e fuel s w)))))"
proof (induction fuel arbitrary: s w)
  case 0
  show ?case by (simp add: getGraphData.simps)
next
  case (Suc n)
  obtain r1 s1 w1 where e1: "ensureAuthenticated e (Suc n) s w = (r1, s1, w1)"
    by (cases "ensureAuthenticated e (Suc n) s w") auto
  with ensureAuthenticated_log [of w e "Suc n" s]
  have w1: "prefix (events w) (events w1)" by simp
  obtain r2 s2 w2 where p: "getPatientId e (Suc n) s1 w1 = (r2, s2, w2)"
    by (cases "getPatientId e (Suc n) s1 w1") auto
  with getPatientId_log [of w1 e "Suc n" s1] have "prefix (events w1) (events w2)" by simp
  with w1 have w2: "prefix (events w) (events w2)" by (rule prefix_order.trans)
  show ?case
  proof (cases "\<exists>pid c. r1 = Return () \<and> r2 = Return pid \<and> createAuthenticatedClient s2 = Inr c")
    case False
    with e1 p w1 w2 show ?thesis
      by (auto simp add: getGraphData.simps split: outcome.splits sum.splits)
  next
    case True
    then obtain pid c where c: "r1 = Return ()" "r2 = Return pid"
      "createAuthenticatedClient s2 = Inr c"
      by blast
    let ?w3 = "emit (GetGraph c (ENDPOINTS_graph pid)) w2"
    have sent: "prefix (events w2 @ [GetGraph c (ENDPOINTS_graph pid)])
                  (events (snd (snd (getGraphData e (Suc n) s w))))"
    proof (cases "graphReply e (count isGetGraph w2) c (ENDPOINTS_graph pid)")
      case (GraphBody d)
      with e1 p c show ?thesis by (simp add: getGraphData.simps Let_def)
    next
      case (GraphFailure ae)
      show ?thesis
      proof (cases "ae_status ae = Some 401")
        case False
        with GraphFailure e1 p c show ?thesis by (simp add: getGraphData.simps Let_def)
      next
        case True
        let ?w4 = "if configManager s2 then clearToken ?w3 else ?w3"
        have p3: "prefix (events ?w3) (events ?w4)" by simp
        obtain r4 s4 w5 where
          e4: "ensureAuthenticated e (Suc n) (s2\<lparr>jwtToken := None\<rparr>) ?w4 = (r4, s4, w5)"
          by (cases "ensureAuthenticated e (Suc n) (s2\<lparr>jwtToken := None\<rparr>) ?w4") auto
        with ensureAuthenticated_log [of ?w4 e "Suc n" "s2\<lparr>jwtToken := None\<rparr>"]
        have "prefix (events ?w4) (events w5)" by simp
        with p3 have p4: "prefix (events ?w3) (events w5)" by (rule prefix_order.trans)
        from Suc.IH [where s = s4 and w = w5]
        have "prefix (events w5) (events (snd (snd (getGraphData e n s4 w5))))" by blast
        with p4 have p5: "prefix (events ?w3) (events (snd (snd (getGraphData e n s4 w5))))"
          by (rule prefix_order.trans)
        have "getGraphData e (Suc n) s w =
                (case r4 of Throw err \<Rightarrow> (Throw err, s4, w5)
                 | OutOfFuel \<Rightarrow> (OutOfFuel, s4, w5)
                 | Return u' \<Rightarrow> getGraphData e n s4 w5)"
          using True GraphFailure c e1 p e4
          by (simp add: getGraphData.simps Let_def split: outcome.splits)
        with p4 p5 show ?thesis by (simp split: outcome.splits)
      qed
    qed
    have "prefix (events w2) (events w2 @ [GetGraph c (ENDPOINTS_graph pid)])" by simp
    with w2 have "prefix (events w) (events w2 @ [GetGraph c (ENDPOINTS_graph pid)])"
      by (rule prefix_order.trans)
    from this sent have "prefix (events w) (events (snd (snd (getGraphData e (Suc n) s w))))"
      by (rule prefix_order.trans)
    with sent e1 p c show ?thesis by simp
  qed
qed


section \<open>The session status\<close>

text \<open>
  C9. \<^verbatim>\<open>getSessionStatus()\<close> is a pure read. It returns the client and the world as it found
  them (no field is written, nothing is added to the I/O log), and its result depends only
  on \<^verbatim>\<open>jwtToken\<close>, \<^verbatim>\<open>accountId\<close>, \<^verbatim>\<open>tokenExpires\<close> and the clock: two calls that agree on
  these (in particular two calls on the same state at the same time) return the same value.
\<close>

theorem getSessionStatus_pure_read:
  "snd (getSessionStatus e s w) = (s, w) \<and>
   (jwtToken s = jwtToken s' \<and> accountId s = accountId s' \<and> tokenExpires s = tokenExpires s'
      \<and> now e w = now e' w'
    \<longrightarrow> fst (getSessionStatus e s w) = fst (getSessionStatus e' s' w'))"
  by (simp add: getSessionStatus_def isTokenValid_def)

theorem getSessionStatus_pure_read_witness:
  "fst (getSessionStatus envOK (sessionUntil 5000000) emptyWorld) =
   fst (getSessionStatus envOK
          ((sessionUntil 5000000)\<lparr>userId := None, patientId := None, baseUrl := None\<rparr>)
          \<lparr>tokenFile = Corrupted, events = [ReadToken]\<rparr>)"
  using getSessionStatus_pure_read
    [where s = "sessionUntil 5000000"
       and s' = "(sessionUntil 5000000)\<lparr>userId := None, patientId := None, baseUrl := None\<rparr>"
       and e = envOK and w = emptyWorld and e' = envOK
       and w' = "\<lparr>tokenFile = Corrupted, events = [ReadToken]\<rparr>"]
  by simp

section \<open>Clearing the session\<close>

text \<open>
  C8. After \<^verbatim>\<open>clearSession()\<close> the token, account id, user id and patient id are null and
  the expiry is 0; the token file reached through the client's \<^verbatim>\<open>ConfigManager\<close> is
  deleted (and the \<^verbatim>\<open>clear_session\<close> tool deletes it in any case);
  \<^verbatim>\<open>getSessionStatus()\<close> reports authenticated = false, tokenValid = false and no expiry;
  no authenticated client can be built, and the next \<^verbatim>\<open>ensureAuthenticated()\<close> finds
  nothing to restore and runs \<^verbatim>\<open>login()\<close>.
\<close>

theorem clearSession_drops_session:
  assumes "clearSession s w = (s', w')"
  shows "jwtToken s' = None \<and> accountId s' = None \<and> userId s' = None \<and> patientId s' = None
       \<and> tokenExpires s' = 0
       \<and> (configManager s \<longrightarrow> tokenFile w' = NoFile)
       \<and> tokenFile (snd (clear_session (Some s) w)) = NoFile
       \<and> fst (getSessionStatus e s' w')
           = \<lparr>authenticated = False, tokenValid = False, expiresAt = None\<rparr>
       \<and> createAuthenticatedClient s' = Inl NotAuthenticated
       \<and> ensureAuthenticated e fuel s' w'
           = login e fuel s' (if configManager s then emit ReadToken w' else w')"
  using assms
  by (auto simp add: clearSession_def getSessionStatus_def isTokenValid_def truthy_def
      createAuthenticatedClient_def ensureAuthenticated_def tryRestoreSession_def getToken_def
      clear_session_def)

theorem clearSession_drops_session_witness:
  "jwtToken (fst (clearSession (sessionUntil 5000000) \<lparr>tokenFile = Envelope staleUS, events = []\<rparr>))
     = None
   \<and> tokenFile (snd (clearSession (sessionUntil 5000000)
                       \<lparr>tokenFile = Envelope staleUS, events = []\<rparr>)) = NoFile
   \<and> fst (getSessionStatus envOK
            (fst (clearSession (sessionUntil 5000000) \<lparr>tokenFile = Envelope staleUS, events = []\<rparr>))
            (snd (clearSession (sessionUntil 5000000) \<lparr>tokenFile = Envelope staleUS, events = []\<rparr>)))
       = \<lparr>authenticated = False, tokenValid = False, expiresAt = None\<rparr>"
  using clearSession_drops_session
    [where s = "sessionUntil 5000000"
       and w = "\<lparr>tokenFile = Envelope staleUS, events = []\<rparr>"
       and s' = "fst (clearSession (sessionUntil 5000000)
                        \<lparr>tokenFile = Envelope staleUS, events = []\<rparr>)"
       and w' = "snd (clearSession (sessionUntil 5000000)
                        \<lparr>tokenFile = Envelope staleUS, events = []\<rparr>)"
       and e = envOK]
  by simp

section \<open>The safety margin\<close>

text \<open>
  C3. When the session in memory (a token with its account id) expires more than 300 seconds
  from now, \<^verbatim>\<open>ensureAuthenticated()\<close> returns at once: the client and the world, with its
  I/O log, are as before. When the expiry is at most 300 seconds away, the token is not
  valid: \<^verbatim>\<open>ensureAuthenticated()\<close> tries to restore the stored session and, unless what it
  restored is valid, runs \<^verbatim>\<open>login()\<close>; either way it performs I/O.
\<close>

theorem ensureAuthenticated_safety_margin:
  "(truthy (jwtToken s) \<and> truthy (accountId s) \<and> now e w + 300000 < tokenExpires s
      \<longrightarrow> ensureAuthenticated e fuel s w = (Return (), s, w))
   \<and> (tokenExpires s \<le> now e w + 300000
      \<longrightarrow> \<not> isTokenValid e s w
        \<and> ensureAuthenticated e fuel s w =
            (case tryRestoreSession e s w of (restored, s1, w1) \<Rightarrow>
               if isTokenValid e s1 w1 then (Return (), s1, w1) else login e fuel s1 w1)
        \<and> length (events w)
            < length (events (snd (snd (ensureAuthenticated e (Suc n) s w)))))"
proof (intro conjI impI)
  assume "truthy (jwtToken s) \<and> truthy (accountId s) \<and> now e w + 300000 < tokenExpires s"
  then show "ensureAuthenticated e fuel s w = (Return (), s, w)"
    by (simp add: ensureAuthenticated_def isTokenValid_def)
next
  assume a: "tokenExpires s \<le> now e w + 300000"
  then show inv: "\<not> isTokenValid e s w" by (simp add: isTokenValid_def)
  from inv show "ensureAuthenticated e fuel s w =
            (case tryRestoreSession e s w of (restored, s1, w1) \<Rightarrow>
               if isTokenValid e s1 w1 then (Return (), s1, w1) else login e fuel s1 w1)"
    by (rule ensureAuthenticated_invalid)
  from inv show "length (events w)
            < length (events (snd (snd (ensureAuthenticated e (Suc n) s w))))"
    by (rule ensureAuthenticated_invalid_log)
qed

theorem ensureAuthenticated_safety_margin_witness:
  "ensureAuthenticated envOK 0 (sessionUntil 1300001) emptyWorld
     = (Return (), sessionUntil 1300001, emptyWorld)
   \<and> \<not> isTokenValid envOK (sessionUntil 1120000) emptyWorld
   \<and> 0 < length (events (snd (snd (ensureAuthenticated envOK (Suc 0) (sessionUntil 1120000) emptyWorld))))"
  using ensureAuthenticated_safety_margin
          [where s = "sessionUntil 1300001" and e = envOK and w = emptyWorld and fuel = 0]
        ensureAuthenticated_safety_margin
          [where s = "sessionUntil 1120000" and e = envOK and w = emptyWorld and n = 0
             and fuel = 0]
  by (simp add: truthy_def)

section \<open>Restoring the stored session\<close>

text \<open>
  C4. When the stored bundle's region differs from the configured region,
  \<^verbatim>\<open>tryRestoreSession()\<close> reads the bundle, deletes it and answers false with the client
  unchanged, so none of the bundle's fields reaches memory; \<^verbatim>\<open>ensureAuthenticated()\<close>, called
  without a valid session in memory, then runs \<^verbatim>\<open>login()\<close> (the clock not running
  backwards).
\<close>

theorem tryRestoreSession_region_mismatch:
  assumes "configManager s" and "tokenFile w = Envelope t"
    and "st_region t \<noteq> region (config s)"
  shows "tryRestoreSession e s w = (False, s, clearToken (emit ReadToken w))
       \<and> tokenFile (clearToken (emit ReadToken w)) = NoFile
       \<and> (\<not> isTokenValid e s w \<and> clockMonotone e
            \<longrightarrow> ensureAuthenticated e fuel s w = login e fuel s (clearToken (emit ReadToken w)))"
proof -
  have r: "tryRestoreSession e s w = (False, s, clearToken (emit ReadToken w))"
    using assms by (simp add: tryRestoreSession_def getToken_def)
  have "ensureAuthenticated e fuel s w = login e fuel s (clearToken (emit ReadToken w))"
    if "\<not> isTokenValid e s w" and "clockMonotone e"
  proof -
    have "\<not> isTokenValid e s (clearToken (emit ReadToken w))"
      using that isTokenValid_later [of e s w "clearToken (emit ReadToken w)"] by simp
    with that(1) r show ?thesis by (simp add: ensureAuthenticated_invalid)
  qed
  with r show ?thesis by simp
qed

theorem tryRestoreSession_region_mismatch_witness:
  "tryRestoreSession envOK (newClient envOK cfgEU True) \<lparr>tokenFile = Envelope staleUS, events = []\<rparr>
     = (False, newClient envOK cfgEU True, \<lparr>tokenFile = NoFile, events = [ReadToken, DeleteToken]\<rparr>)
   \<and> ensureAuthenticated envOK (Suc 0) (newClient envOK cfgEU True)
        \<lparr>tokenFile = Envelope staleUS, events = []\<rparr>
     = login envOK (Suc 0) (newClient envOK cfgEU True)
        \<lparr>tokenFile = NoFile, events = [ReadToken, DeleteToken]\<rparr>"
  using tryRestoreSession_region_mismatch
          [where s = "newClient envOK cfgEU True"
             and w = "\<lparr>tokenFile = Envelope staleUS, events = []\<rparr>"
             and t = staleUS and e = envOK and fuel = "Suc 0"]
  by (simp add: staleUS_def isTokenValid_def truthy_def clearToken_def emit_def)

text \<open>
  C6 (as the code has it). When reading the stored token fails (malformed envelope, failed
  tag check, decryption error), \<^verbatim>\<open>tryRestoreSession()\<close> catches the error and answers false,
  with the client and the token file unchanged; \<^verbatim>\<open>ensureAuthenticated()\<close>, called without a
  valid session in memory, then runs \<^verbatim>\<open>login()\<close>, as it does when there is no stored token
  (the clock not running backwards).
\<close>

theorem tryRestoreSession_swallows_read_failure:
  assumes "configManager s" and "tokenFile w = Corrupted"
  shows "tryRestoreSession e s w = (False, s, emit ReadToken w)
       \<and> (\<not> isTokenValid e s w \<and> clockMonotone e
            \<longrightarrow> ensureAuthenticated e fuel s w = login e fuel s (emit ReadToken w))"
proof -
  have r: "tryRestoreSession e s w = (False, s, emit ReadToken w)"
    using assms by (simp add: tryRestoreSession_def getToken_def)
  have "ensureAuthenticated e fuel s w = login e fuel s (emit ReadToken w)"
    if "\<not> isTokenValid e s w" and "clockMonotone e"
  proof -
    have "\<not> isTokenValid e s (emit ReadToken w)"
      using that isTokenValid_later [of e s w "emit ReadToken w"] by simp
    with that(1) r show ?thesis by (simp add: ensureAuthenticated_invalid)
  qed
  with r show ?thesis by simp
qed

theorem tryRestoreSession_swallows_read_failure_witness:
  "tryRestoreSession envOK (newClient envOK cfgEU True) \<lparr>tokenFile = Corrupted, events = []\<rparr>
     = (False, newClient envOK cfgEU True, \<lparr>tokenFile = Corrupted, events = [ReadToken]\<rparr>)
   \<and> ensureAuthenticated envOK (Suc 0) (newClient envOK cfgEU True)
        \<lparr>tokenFile = Corrupted, events = []\<rparr>
     = login envOK (Suc 0) (newClient envOK cfgEU True)
        \<lparr>tokenFile = Corrupted, events = [ReadToken]\<rparr>"
  using tryRestoreSession_swallows_read_failure
          [where s = "newClient envOK cfgEU True"
             and w = "\<lparr>tokenFile = Corrupted, events = []\<rparr>"
             and e = envOK and fuel = "Suc 0"]
  by (simp add: isTokenValid_def truthy_def emit_def)

text \<open>
  The claim as stated fails: with a corrupted token file and a server that grants the login,
  \<^verbatim>\<open>ensureAuthenticated()\<close> returns normally; the failure is not surfaced.
\<close>

theorem corrupted_token_file_counterexample:
  "tokenFile \<lparr>tokenFile = Corrupted, events = []\<rparr> = Corrupted
   \<and> fst (ensureAuthenticated envOK (Suc 0) (newClient envOK cfgEU True)
             \<lparr>tokenFile = Corrupted, events = []\<rparr>) = Return ()"
proof -
  let ?s = "newClient envOK cfgEU True"
  let ?w = "\<lparr>tokenFile = Corrupted, events = []\<rparr>"
  have "\<not> isTokenValid envOK ?s ?w" by (simp add: isTokenValid_def truthy_def)
  then have "ensureAuthenticated envOK (Suc 0) ?s ?w
      = (case tryRestoreSession envOK ?s ?w of (restored, s1, w1) \<Rightarrow>
        if isTokenValid envOK s1 w1 then (Return (), s1, w1) else login envOK (Suc 0) s1 w1)"
    by (rule ensureAuthenticated_invalid)
  also have "\<dots> = login envOK (Suc 0) ?s (emit ReadToken ?w)"
    by (simp add: tryRestoreSession_def getToken_def isTokenValid_def truthy_def)
  also have "fst \<dots> = Return ()"
    by (simp add: login.simps grant_def truthy_def storeAuthentication_def Let_def)
  finally show ?thesis by simp
qed

section \<open>Changing the configuration\<close>

text \<open>
  C10 (as the code has it). \<^verbatim>\<open>updateConfig()\<close> tests the new email, password and region for
  truthiness. When one of them is present and not the empty string, the token, account id
  and patient id are set to null, the user id and the expiry stay, the base URL becomes
  that of the new region when a region is given, and \<^verbatim>\<open>getSessionStatus()\<close> reports
  authenticated = false with the expiry it reported before. Otherwise only the
  configuration is merged.
\<close>

theorem updateConfig_resets_authentication:
  "(truthy (p_email p) \<or> truthy (p_password p) \<or> truthy (p_region p) \<longrightarrow>
      jwtToken (updateConfig e p s) = None
      \<and> accountId (updateConfig e p s) = None
      \<and> patientId (updateConfig e p s) = None
      \<and> userId (updateConfig e p s) = userId s
      \<and> tokenExpires (updateConfig e p s) = tokenExpires s
      \<and> baseUrl (updateConfig e p s) =
          (if truthy (p_region p) then serverFor e (the (p_region p)) else baseUrl s)
      \<and> authenticated (fst (getSessionStatus e (updateConfig e p s) w)) = False
      \<and> expiresAt (fst (getSessionStatus e (updateConfig e p s) w))
          = expiresAt (fst (getSessionStatus e s w)))
   \<and> (\<not> truthy (p_email p) \<and> \<not> truthy (p_password p) \<and> \<not> truthy (p_region p) \<longrightarrow>
        updateConfig e p s = s\<lparr>config := mergeConfig (config s) p\<rparr>)"
  by (simp add: updateConfig_def getSessionStatus_def truthy_def Let_def)

theorem updateConfig_resets_authentication_witness:
  "jwtToken (updateConfig envOK (noPartial\<lparr>p_region := Some ''US''\<rparr>) (sessionUntil 5000000)) = None
   \<and> baseUrl (updateConfig envOK (noPartial\<lparr>p_region := Some ''US''\<rparr>) (sessionUntil 5000000))
       = Some ''https://api-us.libreview.io''
   \<and> expiresAt (fst (getSessionStatus envOK
         (updateConfig envOK (noPartial\<lparr>p_region := Some ''US''\<rparr>) (sessionUntil 5000000)) emptyWorld))
       = Some 5000000
   \<and> jwtToken (updateConfig envOK (noPartial\<lparr>p_targetLow := Some 80\<rparr>) (sessionUntil 5000000))
       = Some ''tok0''"
  using updateConfig_resets_authentication
          [where p = "noPartial\<lparr>p_region := Some ''US''\<rparr>" and e = envOK
             and s = "sessionUntil 5000000" and w = emptyWorld]
        updateConfig_resets_authentication
          [where p = "noPartial\<lparr>p_targetLow := Some 80\<rparr>" and e = envOK
             and s = "sessionUntil 5000000" and w = emptyWorld]
  by (simp add: noPartial_def truthy_def serverFor_def servers_def getSessionStatus_def)

text \<open>
  The claim as stated fails: a partial configuration that contains an email, the empty
  string, leaves the token in place.
\<close>

theorem updateConfig_empty_email_counterexample:
  "p_email (noPartial\<lparr>p_email := Some ''''\<rparr>) \<noteq> None
   \<and> jwtToken (updateConfig envOK (noPartial\<lparr>p_email := Some ''''\<rparr>) (sessionUntil 5000000))
       = Some ''tok0''"
  by (simp add: updateConfig_def noPartial_def truthy_def Let_def)

section \<open>The account id\<close>

text \<open>
  C5. When \<^verbatim>\<open>login()\<close> returns, the last login request was answered with a body that
  carries a ticket and a user with an id; the token in memory is that ticket's token, the
  user id is that id, and the account id is \<^verbatim>\<open>generateAccountId\<close> of it, the hex SHA-256
  digest of the user id. With a token and an account id in memory (neither empty),
  \<^verbatim>\<open>createAuthenticatedClient()\<close> builds a client with the seven default headers, the
  header \<^verbatim>\<open>Authorization: Bearer <token>\<close> and the header \<^verbatim>\<open>Account-Id\<close> with the account
  id in memory: after a login that returned, the ticket's token and the digest. Without a
  token or without an account id, building one fails with "Not authenticated".
  \<^verbatim>\<open>getConnections()\<close> and \<^verbatim>\<open>getGraphData()\<close> send their request with the client built
  from the session that \<^verbatim>\<open>ensureAuthenticated()\<close> left in memory, and every data request in
  the I/O log carries a non-empty bearer token and a non-empty account id.
\<close>

theorem login_derives_account_id:
  "(login e fuel s w = (Return (), s', w') \<longrightarrow>
      (\<exists>k body d t usr u.
          count isPostLogin w' = Suc k
        \<and> loginReply e k (createClient s') (email (config s')) (password (config s'))
            = LoginBody body
        \<and> lr_data body = Some d \<and> ld_authTicket d = Some t
        \<and> ld_user d = Some usr \<and> u_id usr = Some u
        \<and> jwtToken s' = Some (at_token t)
        \<and> userId s' = Some u
        \<and> accountId s' = Some (generateAccountId e u)
        \<and> generateAccountId e u = sha256_hex e u
        \<and> (at_token t \<noteq> [] \<and> sha256_hex e u \<noteq> [] \<longrightarrow>
              createAuthenticatedClient s' =
                Inr \<lparr>hc_baseURL = baseUrl s',
                     hc_headers = baseHeaders s' @
                       [(''Authorization'', ''Bearer '' @ at_token t),
                        (''Account-Id'', sha256_hex e u)],
                     hc_timeout = 30000\<rparr>)
        \<and> (\<forall>c. createAuthenticatedClient s' = Inr c \<longrightarrow>
              map_of (hc_headers c) ''Authorization'' = Some (''Bearer '' @ at_token t)
            \<and> map_of (hc_headers c) ''Account-Id'' = Some (sha256_hex e u))))
   \<and> (truthy (jwtToken x) \<and> truthy (accountId x) \<longrightarrow>
        createAuthenticatedClient x =
          Inr \<lparr>hc_baseURL = baseUrl x,
               hc_headers = baseHeaders x @
                 [(''Authorization'', ''Bearer '' @ the (jwtToken x)),
                  (''Account-Id'', the (accountId x))],
               hc_timeout = 30000\<rparr>)
   \<and> (createAuthenticatedClient x = Inr c \<longrightarrow>
        truthy (jwtToken x) \<and> truthy (accountId x)
        \<and> map_of (hc_headers c) ''Authorization'' = Some (''Bearer '' @ the (jwtToken x))
        \<and> map_of (hc_headers c) ''Account-Id'' = accountId x)
   \<and> (\<not> truthy (jwtToken x) \<or> \<not> truthy (accountId x) \<longrightarrow>
        createAuthenticatedClient x = Inl NotAuthenticated)
   \<and> (ensureAuthenticated e (Suc n) s w = (Return (), sa, wa)
        \<and> createAuthenticatedClient sa = Inr ca
      \<longrightarrow> prefix (events wa @ [GetConnections ca])
            (events (snd (snd (getConnections e (Suc n) s w)))))
   \<and> (ensureAuthenticated e (Suc n) s w = (Return (), sa, wa)
        \<and> getPatientId e (Suc n) sa wa = (Return pid, sb, wb)
        \<and> createAuthenticatedClient sb = Inr cb
      \<longrightarrow> prefix (events wb @ [GetGraph cb (ENDPOINTS_graph pid)])
            (events (snd (snd (getGraphData e (Suc n) s w)))))
   \<and> (list_all carriesCredentials (events w) \<longrightarrow>
        list_all carriesCredentials (events (snd (snd (getConnections e fuel s w))))
        \<and> list_all carriesCredentials (events (snd (snd (getGraphData e fuel s w)))))"
proof -
  have p1: "login e fuel s w = (Return (), s', w') \<longrightarrow>
      (\<exists>k body d t usr u.
          count isPostLogin w' = Suc k
        \<and> loginReply e k (createClient s') (email (config s')) (password (config s'))
            = LoginBody body
        \<and> lr_data body = Some d \<and> ld_authTicket d = Some t
        \<and> ld_user d = Some usr \<and> u_id usr = Some u
        \<and> jwtToken s' = Some (at_token t)
        \<and> userId s' = Some u
        \<and> accountId s' = Some (generateAccountId e u)
        \<and> generateAccountId e u = sha256_hex e u
        \<and> (at_token t \<noteq> [] \<and> sha256_hex e u \<noteq> [] \<longrightarrow>
              createAuthenticatedClient s' =
                Inr \<lparr>hc_baseURL = baseUrl s',
                     hc_headers = baseHeaders s' @
                       [(''Authorization'', ''Bearer '' @ at_token t),
                        (''Account-Id'', sha256_hex e u)],
                     hc_timeout = 30000\<rparr>)
        \<and> (\<forall>c. createAuthenticatedClient s' = Inr c \<longrightarrow>
              map_of (hc_headers c) ''Authorization'' = Some (''Bearer '' @ at_token t)
            \<and> map_of (hc_headers c) ''Account-Id'' = Some (sha256_hex e u)))"
  proof
    assume "login e fuel s w = (Return (), s', w')"
    from login_Return [OF this] obtain k body d t usr u where
      h: "count isPostLogin w' = Suc k"
         "loginReply e k (createClient s') (email (config s')) (password (config s'))
              = LoginBody body"
         "lr_data body = Some d" "ld_authTicket d = Some t"
         "ld_user d = Some usr" "u_id usr = Some u"
         "jwtToken s' = Some (at_token t)" "userId s' = Some u"
         "accountId s' = Some (generateAccountId e u)"
      by blast
    have g: "generateAccountId e u = sha256_hex e u" by (simp add: generateAccountId_def)
    have b: "at_token t \<noteq> [] \<and> sha256_hex e u \<noteq> [] \<longrightarrow>
              createAuthenticatedClient s' =
                Inr \<lparr>hc_baseURL = baseUrl s',
                     hc_headers = baseHeaders s' @
                       [(''Authorization'', ''Bearer '' @ at_token t),
                        (''Account-Id'', sha256_hex e u)],
                     hc_timeout = 30000\<rparr>"
      using h(7,9) g by (simp add: createAuthenticatedClient_def truthy_def)
    have c: "\<forall>c. createAuthenticatedClient s' = Inr c \<longrightarrow>
                map_of (hc_headers c) ''Authorization'' = Some (''Bearer '' @ at_token t)
              \<and> map_of (hc_headers c) ''Account-Id'' = Some (sha256_hex e u)"
      using createAuthenticatedClient_headers [of s'] h(7,9) g by simp
    from h g b c show "\<exists>k body d t usr u.
          count isPostLogin w' = Suc k
        \<and> loginReply e k (createClient s') (email (config s')) (password (config s'))
            = LoginBody body
        \<and> lr_data body = Some d \<and> ld_authTicket d = Some t
        \<and> ld_user d = Some usr \<and> u_id usr = Some u
        \<and> jwtToken s' = Some (at_token t)
        \<and> userId s' = Some u
        \<and> accountId s' = Some (generateAccountId e u)
        \<and> generateAccountId e u = sha256_hex e u
        \<and> (at_token t \<noteq> [] \<and> sha256_hex e u \<noteq> [] \<longrightarrow>
              createAuthenticatedClient s' =
                Inr \<lparr>hc_baseURL = baseUrl s',
                     hc_headers = baseHeaders s' @
                       [(''Authorization'', ''Bearer '' @ at_token t),
                        (''Account-Id'', sha256_hex e u)],
                     hc_timeout = 30000\<rparr>)
        \<and> (\<forall>c. createAuthenticatedClient s' = Inr c \<longrightarrow>
              map_of (hc_headers c) ''Authorization'' = Some (''Bearer '' @ at_token t)
            \<and> map_of (hc_headers c) ''Account-Id'' = Some (sha256_hex e u))"
      by blast
  qed
  have p2: "truthy (jwtToken x) \<and> truthy (accountId x) \<longrightarrow>
        createAuthenticatedClient x =
          Inr \<lparr>hc_baseURL = baseUrl x,
               hc_headers = baseHeaders x @
                 [(''Authorization'', ''Bearer '' @ the (jwtToken x)),
                  (''Account-Id'', the (accountId x))],
               hc_timeout = 30000\<rparr>"
    by (simp add: createAuthenticatedClient_def)
  have p3: "createAuthenticatedClient x = Inr c \<longrightarrow>
        truthy (jwtToken x) \<and> truthy (accountId x)
        \<and> map_of (hc_headers c) ''Authorization'' = Some (''Bearer '' @ the (jwtToken x))
        \<and> map_of (hc_headers c) ''Account-Id'' = accountId x"
    using createAuthenticatedClient_headers [of x c] by blast
  have p4: "\<not> truthy (jwtToken x) \<or> \<not> truthy (accountId x) \<longrightarrow>
        createAuthenticatedClient x = Inl NotAuthenticated"
    by (auto simp: createAuthenticatedClient_def)
  have p5: "ensureAuthenticated e (Suc n) s w = (Return (), sa, wa)
        \<and> createAuthenticatedClient sa = Inr ca
      \<longrightarrow> prefix (events wa @ [GetConnections ca])
            (events (snd (snd (getConnections e (Suc n) s w))))"
    using getConnections_sends [of w e "Suc n" s] by blast
  have p6: "ensureAuthenticated e (Suc n) s w = (Return (), sa, wa)
        \<and> getPatientId e (Suc n) sa wa = (Return pid, sb, wb)
        \<and> createAuthenticatedClient sb = Inr cb
      \<longrightarrow> prefix (events wb @ [GetGraph cb (ENDPOINTS_graph pid)])
            (events (snd (snd (getGraphData e (Suc n) s w))))"
    using getGraphData_sends [of w e "Suc n" s] by blast
  have p7: "list_all carriesCredentials (events w) \<longrightarrow>
        list_all carriesCredentials (events (snd (snd (getConnections e fuel s w))))
        \<and> list_all carriesCredentials (events (snd (snd (getGraphData e fuel s w))))"
    using credentials_getConnections [of w e fuel s] credentials_getGraphData [of w e fuel s]
    by blast
  from p1 p2 p3 p4 p5 p6 p7 show ?thesis by (intro conjI)
qed

lemma newClient_envOK:
  "newClient envOK cfgEU True =
     \<lparr>config = cfgEU, configManager = True, baseUrl = Some ''https://api-eu.libreview.io'',
      jwtToken = None, userId = None, accountId = None, patientId = None, tokenExpires = 0\<rparr>"
  by (simp add: newClient_def serverFor_def truthy_def cfgEU_def)

lemma createClient_envOK: "createClient (newClient envOK cfgEU True) = loginClientOK"
  by (simp add: newClient_envOK createClient_def baseHeaders_def loginClientOK_def)

lemma login_envOK:
  "login envOK (Suc 0) (newClient envOK cfgEU True) w =
     (Return (), sessionOK,
      saveToken bundleOK (emit (PostLogin loginClientOK ''a@b.com'' ''pw'') w))"
proof -
  let ?s = "\<lparr>config = cfgEU, configManager = True,
             baseUrl = Some ''https://api-eu.libreview.io'',
             jwtToken = None, userId = None, accountId = None, patientId = None,
             tokenExpires = 0\<rparr>"
  have "nextLoginReply envOK ?s w = grant ''tok1'' ''u1'' 5000"
    by (simp add: nextLoginReply_def)
  from login_granted [OF this, of 0]
  have "login envOK (Suc 0) ?s w =
     (Return (), sessionOK,
      saveToken bundleOK (emit (PostLogin loginClientOK ''a@b.com'' ''pw'') w))"
    by (simp add: createClient_def baseHeaders_def loginClientOK_def storeAuthentication_def
          Let_def saveSession_def generateAccountId_def truthy_def sessionOK_def bundleOK_def)
  then show ?thesis by (simp add: newClient_envOK)
qed

lemma sessionOK_valid: "isTokenValid envOK (sessionOK\<lparr>patientId := p\<rparr>) w"
  by (simp add: isTokenValid_def truthy_def sessionOK_def)

lemma sessionOK_client: "createAuthenticatedClient (sessionOK\<lparr>patientId := p\<rparr>) = Inr clientOK"
  by (simp add: createAuthenticatedClient_def truthy_def sessionOK_def clientOK_def
        baseHeaders_def)

lemma ensureAuthenticated_envOK:
  "ensureAuthenticated envOK (Suc 0) (newClient envOK cfgEU True) emptyWorld =
     (Return (), sessionOK,
      \<lparr>tokenFile = Envelope bundleOK,
        events = [ReadToken, PostLogin loginClientOK ''a@b.com'' ''pw'', WriteToken bundleOK]\<rparr>)"
proof -
  let ?s = "newClient envOK cfgEU True"
  have "\<not> isTokenValid envOK ?s emptyWorld" by (simp add: isTokenValid_def truthy_def)
  from ensureAuthenticated_invalid [OF this, of "Suc 0"]
  have "ensureAuthenticated envOK (Suc 0) ?s emptyWorld
          = login envOK (Suc 0) ?s (emit ReadToken emptyWorld)"
    by (simp add: tryRestoreSession_def getToken_def isTokenValid_def truthy_def)
  then show ?thesis
    by (simp add: login_envOK saveToken_def emit_def emptyWorld_def)
qed

lemma getGraphData_envOK:
  "getGraphData envOK (Suc 0) (newClient envOK cfgEU True) emptyWorld =
     (Return ''graph'', sessionOK\<lparr>patientId := Some ''p1''\<rparr>,
      \<lparr>tokenFile = Envelope bundleOK,
        events = [ReadToken, PostLogin loginClientOK ''a@b.com'' ''pw'', WriteToken bundleOK,
                  GetConnections clientOK,
                  GetGraph clientOK ''/llu/connections/p1/graph'']\<rparr>)"
proof -
  let ?wA = "\<lparr>tokenFile = Envelope bundleOK,
        events = [ReadToken, PostLogin loginClientOK ''a@b.com'' ''pw'', WriteToken bundleOK]\<rparr>"
  have c: "createAuthenticatedClient sessionOK = Inr clientOK"
    and v: "isTokenValid envOK sessionOK ?wA"
    using sessionOK_client [of "patientId sessionOK"] sessionOK_valid [of "patientId sessionOK" ?wA]
    by simp_all
  have "connectionsReply envOK (count isGetConnections ?wA) clientOK
          = ConnectionsBody (Some [\<lparr>c_patientId = ''p1''\<rparr>])"
    by simp
  from getConnections_answered [OF v c this, of 0]
  have p: "getPatientId envOK (Suc 0) sessionOK ?wA =
             (Return ''p1'', sessionOK\<lparr>patientId := Some ''p1''\<rparr>,
              emit (GetConnections clientOK) ?wA)"
    by (simp add: getPatientId_def truthy_def sessionOK_def)
  show ?thesis
    using ensureAuthenticated_envOK p sessionOK_client [of "Some ''p1''"]
    by (simp add: getGraphData.simps Let_def ENDPOINTS_graph_def emit_def)
qed

theorem login_derives_account_id_witness:
  "login envOK (Suc 0) (newClient envOK cfgEU True) emptyWorld =
     (Return (), sessionOK,
      \<lparr>tokenFile = Envelope bundleOK,
        events = [PostLogin loginClientOK ''a@b.com'' ''pw'', WriteToken bundleOK]\<rparr>)
   \<and> accountId sessionOK = Some (sha256_hex envOK ''u1'')
   \<and> createAuthenticatedClient sessionOK = Inr clientOK
   \<and> map_of (hc_headers clientOK) ''Authorization'' = Some ''Bearer tok1''
   \<and> map_of (hc_headers clientOK) ''Account-Id'' = Some ''sha256:u1''
   \<and> createAuthenticatedClient (newClient envOK cfgEU True) = Inl NotAuthenticated
   \<and> events (snd (snd (getGraphData envOK (Suc 0) (newClient envOK cfgEU True) emptyWorld)))
       = [ReadToken, PostLogin loginClientOK ''a@b.com'' ''pw'', WriteToken bundleOK,
          GetConnections clientOK, GetGraph clientOK ''/llu/connections/p1/graph'']
   \<and> list_all carriesCredentials
        (events (snd (snd (getGraphData envOK (Suc 0) (newClient envOK cfgEU True) emptyWorld))))
   \<and> prefix [ReadToken, PostLogin loginClientOK ''a@b.com'' ''pw'', WriteToken bundleOK,
              GetConnections clientOK]
        (events (snd (snd (getConnections envOK (Suc 0) (newClient envOK cfgEU True)
           emptyWorld))))"
proof -
  let ?s = "newClient envOK cfgEU True"
  let ?wL = "\<lparr>tokenFile = Envelope bundleOK,
        events = [PostLogin loginClientOK ''a@b.com'' ''pw'', WriteToken bundleOK]\<rparr>"
  let ?wA = "\<lparr>tokenFile = Envelope bundleOK,
        events = [ReadToken, PostLogin loginClientOK ''a@b.com'' ''pw'', WriteToken bundleOK]\<rparr>"
  have l: "login envOK (Suc 0) ?s emptyWorld = (Return (), sessionOK, ?wL)"
    by (simp add: login_envOK saveToken_def emit_def emptyWorld_def)
  note t = login_derives_account_id
    [where e = envOK and fuel = "Suc 0" and s = ?s and w = emptyWorld
       and s' = sessionOK and w' = ?wL and x = sessionOK and n = 0
       and sa = sessionOK and wa = ?wA and ca = clientOK]
  note t' = login_derives_account_id [where x = ?s]
  from t l obtain k body d usr u where
    h: "loginReply envOK k (createClient sessionOK) (email (config sessionOK))
          (password (config sessionOK)) = LoginBody body"
       "lr_data body = Some d" "ld_user d = Some usr" "u_id usr = Some u"
       "accountId sessionOK = Some (generateAccountId envOK u)"
       "generateAccountId envOK u = sha256_hex envOK u"
    by blast
  from h(1,2,3,4) have "u = ''u1''"
    by (auto simp add: grant_def)
  with h(5,6) have a: "accountId sessionOK = Some (sha256_hex envOK ''u1'')"
    by simp
  have tr: "truthy (jwtToken sessionOK)" "truthy (accountId sessionOK)"
    by (simp_all add: sessionOK_def truthy_def)
  with t have "createAuthenticatedClient sessionOK =
          Inr \<lparr>hc_baseURL = baseUrl sessionOK,
               hc_headers = baseHeaders sessionOK @
                 [(''Authorization'', ''Bearer '' @ the (jwtToken sessionOK)),
                  (''Account-Id'', the (accountId sessionOK))],
               hc_timeout = 30000\<rparr>"
    by blast
  then have c: "createAuthenticatedClient sessionOK = Inr clientOK"
    by (simp add: sessionOK_def clientOK_def baseHeaders_def)
  with t have hd: "map_of (hc_headers clientOK) ''Authorization''
        = Some (''Bearer '' @ the (jwtToken sessionOK))"
      "map_of (hc_headers clientOK) ''Account-Id'' = accountId sessionOK"
    by blast+
  then have hd': "map_of (hc_headers clientOK) ''Authorization'' = Some ''Bearer tok1''"
    "map_of (hc_headers clientOK) ''Account-Id'' = Some ''sha256:u1''"
    by (simp_all add: sessionOK_def)
  have "\<not> truthy (jwtToken ?s)" by (simp add: truthy_def)
  with t' have n: "createAuthenticatedClient ?s = Inl NotAuthenticated"
    by blast
  have ev: "events (snd (snd (getGraphData envOK (Suc 0) ?s emptyWorld)))
       = [ReadToken, PostLogin loginClientOK ''a@b.com'' ''pw'', WriteToken bundleOK,
          GetConnections clientOK, GetGraph clientOK ''/llu/connections/p1/graph'']"
    by (simp add: getGraphData_envOK)
  have "list_all carriesCredentials (events emptyWorld)" by simp
  with t have g: "list_all carriesCredentials
        (events (snd (snd (getGraphData envOK (Suc 0) ?s emptyWorld))))"
    by blast
  from t ensureAuthenticated_envOK c
  have "prefix (events ?wA @ [GetConnections clientOK])
          (events (snd (snd (getConnections envOK (Suc 0) ?s emptyWorld))))"
    by blast
  then have p: "prefix [ReadToken, PostLogin loginClientOK ''a@b.com'' ''pw'',
              WriteToken bundleOK, GetConnections clientOK]
        (events (snd (snd (getConnections envOK (Suc 0) ?s emptyWorld))))"
    by simp
  from l a c hd' n ev g p show ?thesis by blast
qed

section \<open>A login that fails\<close>

text \<open>
  C7 (as the code has it). When \<^verbatim>\<open>login()\<close> throws an error that it raises itself (invalid
  response, minimum version, required header missing, authentication failed, login failed:
  any error but a TypeError), the token, its expiry, the user id and the account id in
  memory are as before the call. When the first answer was not a region redirect, the whole
  client is as before, region and base URL included. When redirects were followed before
  the failure, the region is the upper-cased region of the last one and the base URL is the
  one \<^verbatim>\<open>login()\<close> set for it (the table's entry for that region, or
  \<^verbatim>\<open>https://api-<region>.libreview.io\<close>); nothing else has changed.
\<close>

theorem login_failure_frame:
  assumes "login e fuel s w = (Throw err, s', w')" and "err \<noteq> TypeError"
  shows "jwtToken s' = jwtToken s \<and> tokenExpires s' = tokenExpires s
       \<and> userId s' = userId s \<and> accountId s' = accountId s
       \<and> (\<not> isRedirect (nextLoginReply e s w) \<longrightarrow> s' = s)
       \<and> (case lastRedirect e fuel s w of
             None \<Rightarrow> s' = s
           | Some r \<Rightarrow>
               region (config s') = toUpperCase e r
               \<and> baseUrl s' =
                   (if truthy (LIBRE_LINK_SERVERS e (toUpperCase e r))
                    then LIBRE_LINK_SERVERS e (toUpperCase e r)
                    else Some (''https://api-'' @ r @ ''.libreview.io''))
               \<and> s' = s\<lparr>baseUrl := baseUrl s',
                         config := (config s)\<lparr>region := region (config s')\<rparr>\<rparr>)"
proof -
  from login_Throw [OF assms] have a: "s' = fst (afterRedirects e fuel s w)" .
  with afterRedirects_fields [of e fuel s w]
  have f: "jwtToken s' = jwtToken s \<and> tokenExpires s' = tokenExpires s
       \<and> userId s' = userId s \<and> accountId s' = accountId s"
    by simp
  have n: "\<not> isRedirect (nextLoginReply e s w) \<longrightarrow> s' = s"
    using a afterRedirects_stays [of e s w fuel] by simp
  have l: "case lastRedirect e fuel s w of
             None \<Rightarrow> s' = s
           | Some r \<Rightarrow>
               region (config s') = toUpperCase e r
               \<and> baseUrl s' =
                   (if truthy (LIBRE_LINK_SERVERS e (toUpperCase e r))
                    then LIBRE_LINK_SERVERS e (toUpperCase e r)
                    else Some (''https://api-'' @ r @ ''.libreview.io''))
               \<and> s' = s\<lparr>baseUrl := baseUrl s',
                         config := (config s)\<lparr>region := region (config s')\<rparr>\<rparr>"
    using a afterRedirects_lastRedirect [of e fuel s w]
    by (simp add: redirectTo_def Let_def split: option.splits)
  from f n l show ?thesis by blast
qed

lemma login_envRedirectReject:
  "login envRedirectReject (Suc (Suc 0)) (sessionUntil 5000000) emptyWorld =
     (Throw AuthenticationFailed,
      redirectTo envRedirectReject ''us'' (sessionUntil 5000000),
      emit (PostLogin (createClient (redirectTo envRedirectReject ''us'' (sessionUntil 5000000)))
              ''a@b.com'' ''pw'')
        (emit (PostLogin (createClient (sessionUntil 5000000)) ''a@b.com'' ''pw'') emptyWorld))"
proof -
  let ?e = envRedirectReject
  let ?s = "sessionUntil 5000000"
  let ?w1 = "emit (PostLogin (createClient ?s) ''a@b.com'' ''pw'') emptyWorld"
  have r0: "nextLoginReply ?e ?s emptyWorld = redirect ''us''"
    by (simp add: nextLoginReply_def envRedirectReject_def count_def)
  have "login ?e (Suc (Suc 0)) ?s emptyWorld = login ?e (Suc 0) (redirectTo ?e ''us'' ?s) ?w1"
    using login_redirect_step [of ?e ?s emptyWorld "Suc 0"] r0 by simp
  also have "\<dots> = (Throw AuthenticationFailed, redirectTo ?e ''us'' ?s,
      emit (PostLogin (createClient (redirectTo ?e ''us'' ?s)) ''a@b.com'' ''pw'') ?w1)"
  proof -
    have "nextLoginReply ?e (redirectTo ?e ''us'' ?s) ?w1 = LoginFailure http401"
      by (simp add: nextLoginReply_def envRedirectReject_def count_def)
    from login_rejected [OF this] show ?thesis
      by (simp add: loginError_def http401_def)
  qed
  finally show ?thesis .
qed

lemma lastRedirect_envRedirectReject:
  "lastRedirect envRedirectReject (Suc (Suc 0)) (sessionUntil 5000000) emptyWorld = Some ''us''"
  by (simp add: nextLoginReply_def envRedirectReject_def count_def)

lemma login_envUnauthorizedRejected:
  "login envUnauthorizedRejected (Suc 0) (sessionUntil 5000000) emptyWorld =
     (Throw AuthenticationFailed, sessionUntil 5000000,
      emit (PostLogin (createClient (sessionUntil 5000000)) ''a@b.com'' ''pw'') emptyWorld)"
proof -
  have "nextLoginReply envUnauthorizedRejected (sessionUntil 5000000) emptyWorld
          = LoginFailure http401"
    by (simp add: nextLoginReply_def envUnauthorizedRejected_def)
  from login_rejected [OF this] show ?thesis
    by (simp add: loginError_def http401_def)
qed

theorem login_failure_frame_witness:
  "fst (login envRedirectReject (Suc (Suc 0)) (sessionUntil 5000000) emptyWorld)
     = Throw AuthenticationFailed
   \<and> jwtToken (fst (snd (login envRedirectReject (Suc (Suc 0)) (sessionUntil 5000000) emptyWorld)))
       = Some ''tok0''
   \<and> tokenExpires (fst (snd (login envRedirectReject (Suc (Suc 0)) (sessionUntil 5000000) emptyWorld)))
       = 5000000
   \<and> region (config (fst (snd (login envRedirectReject (Suc (Suc 0)) (sessionUntil 5000000)
         emptyWorld)))) = ''US''
   \<and> baseUrl (fst (snd (login envRedirectReject (Suc (Suc 0)) (sessionUntil 5000000) emptyWorld)))
       = Some ''https://api-us.libreview.io''
   \<and> fst (login envUnauthorizedRejected (Suc 0) (sessionUntil 5000000) emptyWorld)
       = Throw AuthenticationFailed
   \<and> fst (snd (login envUnauthorizedRejected (Suc 0) (sessionUntil 5000000) emptyWorld))
       = sessionUntil 5000000"
proof -
  let ?s = "sessionUntil 5000000"
  let ?L = "login envRedirectReject (Suc (Suc 0)) ?s emptyWorld"
  let ?M = "login envUnauthorizedRejected (Suc 0) ?s emptyWorld"
  have l: "?L = (Throw AuthenticationFailed, fst (snd ?L), snd (snd ?L))"
    by (simp add: login_envRedirectReject)
  have m: "?M = (Throw AuthenticationFailed, fst (snd ?M), snd (snd ?M))"
    by (simp add: login_envUnauthorizedRejected)
  have ne: "AuthenticationFailed \<noteq> TypeError" by simp
  note a = login_failure_frame [OF l ne, unfolded lastRedirect_envRedirectReject]
  note b = login_failure_frame [OF m ne]
  from a have a1: "jwtToken (fst (snd ?L)) = Some ''tok0''" "tokenExpires (fst (snd ?L)) = 5000000"
    by simp_all
  from a have a2: "region (config (fst (snd ?L))) = ''US''"
    "baseUrl (fst (snd ?L)) = Some ''https://api-us.libreview.io''"
    by (simp_all add: asciiUpperCase_regions truthy_def)
  have "\<not> isRedirect (nextLoginReply envUnauthorizedRejected ?s emptyWorld)"
    by (simp add: nextLoginReply_def envUnauthorizedRejected_def)
  with b have b1: "fst (snd ?M) = ?s" by blast
  from l have l1: "fst ?L = Throw AuthenticationFailed" by (metis fst_conv)
  from m have m1: "fst ?M = Throw AuthenticationFailed" by (metis fst_conv)
  from a1 a2 b1 l1 m1 show ?thesis by blast
qed

text \<open>
  The claim as stated fails: a login that is redirected to the US endpoint and rejected
  there throws, and leaves the region and the base URL of the US endpoint in place of the
  configured ones, next to the token of the earlier session.
\<close>

theorem login_redirect_then_failure_counterexample:
  "fst (login envRedirectReject (Suc (Suc 0)) (sessionUntil 5000000) emptyWorld)
     = Throw AuthenticationFailed
   \<and> region (config (sessionUntil 5000000)) = ''EU''
   \<and> baseUrl (sessionUntil 5000000) = Some ''https://api-eu.libreview.io''
   \<and> region (config (fst (snd (login envRedirectReject (Suc (Suc 0)) (sessionUntil 5000000)
         emptyWorld)))) = ''US''
   \<and> baseUrl (fst (snd (login envRedirectReject (Suc (Suc 0)) (sessionUntil 5000000) emptyWorld)))
       = Some ''https://api-us.libreview.io''"
  by (simp add: login_envRedirectReject asciiUpperCase_regions truthy_def)

section \<open>Region redirects\<close>

text \<open>
  C2 (as the code has it). When the server answers a login with a region redirect,
  \<^verbatim>\<open>login()\<close> sets the configured region to the upper-cased region of the answer and the
  base URL to the table's entry for that region (or, when the table has none, to
  \<^verbatim>\<open>https://api-<region>.libreview.io\<close>) and calls itself; the next request goes to that
  base URL. It does so for every redirect it meets: there is no bound on the number of
  hops. After \<open>k\<close> redirects and an answer that is not one, \<^verbatim>\<open>login()\<close> has sent
  \<open>k + 1\<close> requests and returns or throws. When every answer is a redirect, \<^verbatim>\<open>login()\<close>
  does not terminate: whatever the fuel, it is used up, one request per unit.
\<close>

theorem login_follows_every_redirect:
  "(isRedirect (nextLoginReply e s w) \<and> r = redirectRegion (nextLoginReply e s w)
      \<and> sr = redirectTo e r s
      \<and> wr = emit (PostLogin (createClient s) (email (config s)) (password (config s))) w
    \<longrightarrow> login e (Suc n) s w = login e n sr wr
      \<and> region (config sr) = toUpperCase e r
      \<and> baseUrl sr =
          (if truthy (LIBRE_LINK_SERVERS e (toUpperCase e r))
           then LIBRE_LINK_SERVERS e (toUpperCase e r)
           else Some (''https://api-'' @ r @ ''.libreview.io''))
      \<and> sr = s\<lparr>baseUrl := baseUrl sr, config := (config s)\<lparr>region := toUpperCase e r\<rparr>\<rparr>
      \<and> prefix (events w @
                 [PostLogin (createClient s) (email (config s)) (password (config s)),
                  PostLogin \<lparr>hc_baseURL = baseUrl sr, hc_headers = baseHeaders s,
                             hc_timeout = 30000\<rparr>
                    (email (config s)) (password (config s))])
          (events (snd (snd (login e (Suc (Suc n)) s w)))))
   \<and> ((\<forall>j<k. \<forall>c em pw. isRedirect (loginReply e (count isPostLogin w + j) c em pw))
        \<and> (\<forall>c em pw. \<not> isRedirect (loginReply e (count isPostLogin w + k) c em pw))
        \<and> k < fuel
      \<longrightarrow> fst (login e fuel s w) \<noteq> OutOfFuel
        \<and> count isPostLogin (snd (snd (login e fuel s w))) = count isPostLogin w + k + 1)
   \<and> ((\<forall>j c em pw. isRedirect (loginReply e j c em pw))
      \<longrightarrow> fst (login e fuel s w) = OutOfFuel
        \<and> count isPostLogin (snd (snd (login e fuel s w))) = count isPostLogin w + fuel)"
proof -
  have p1: "isRedirect (nextLoginReply e s w) \<and> r = redirectRegion (nextLoginReply e s w)
      \<and> sr = redirectTo e r s
      \<and> wr = emit (PostLogin (createClient s) (email (config s)) (password (config s))) w
    \<longrightarrow> login e (Suc n) s w = login e n sr wr
      \<and> region (config sr) = toUpperCase e r
      \<and> baseUrl sr =
          (if truthy (LIBRE_LINK_SERVERS e (toUpperCase e r))
           then LIBRE_LINK_SERVERS e (toUpperCase e r)
           else Some (''https://api-'' @ r @ ''.libreview.io''))
      \<and> sr = s\<lparr>baseUrl := baseUrl sr, config := (config s)\<lparr>region := toUpperCase e r\<rparr>\<rparr>
      \<and> prefix (events w @
                 [PostLogin (createClient s) (email (config s)) (password (config s)),
                  PostLogin \<lparr>hc_baseURL = baseUrl sr, hc_headers = baseHeaders s,
                             hc_timeout = 30000\<rparr>
                    (email (config s)) (password (config s))])
          (events (snd (snd (login e (Suc (Suc n)) s w))))"
  proof (intro impI)
    assume a: "isRedirect (nextLoginReply e s w) \<and> r = redirectRegion (nextLoginReply e s w)
      \<and> sr = redirectTo e r s
      \<and> wr = emit (PostLogin (createClient s) (email (config s)) (password (config s))) w"
    then have step: "login e (Suc n) s w = login e n sr wr"
      and step2: "login e (Suc (Suc n)) s w = login e (Suc n) sr wr"
      using login_redirect_step [of e s w n] login_redirect_step [of e s w "Suc n"]
      by simp_all
    from a have f: "region (config sr) = toUpperCase e r"
      "baseUrl sr =
          (if truthy (LIBRE_LINK_SERVERS e (toUpperCase e r))
           then LIBRE_LINK_SERVERS e (toUpperCase e r)
           else Some (''https://api-'' @ r @ ''.libreview.io''))"
      by simp_all
    from a have g: "sr = s\<lparr>baseUrl := baseUrl sr, config := (config s)\<lparr>region := toUpperCase e r\<rparr>\<rparr>"
      by (simp add: redirectTo_def Let_def)
    from a have c: "createClient sr = \<lparr>hc_baseURL = baseUrl sr, hc_headers = baseHeaders s,
                             hc_timeout = 30000\<rparr>"
      "email (config sr) = email (config s)" "password (config sr) = password (config s)"
      by (simp_all add: createClient_def baseHeaders_def)
    from a have wr: "events wr =
        events w @ [PostLogin (createClient s) (email (config s)) (password (config s))]"
      by simp
    from login_posts [of wr sr e n] step2 c wr
    have p: "prefix (events w @
                 [PostLogin (createClient s) (email (config s)) (password (config s)),
                  PostLogin \<lparr>hc_baseURL = baseUrl sr, hc_headers = baseHeaders s,
                             hc_timeout = 30000\<rparr>
                    (email (config s)) (password (config s))])
          (events (snd (snd (login e (Suc (Suc n)) s w))))"
      by simp
    from step f g p show "login e (Suc n) s w = login e n sr wr
      \<and> region (config sr) = toUpperCase e r
      \<and> baseUrl sr =
          (if truthy (LIBRE_LINK_SERVERS e (toUpperCase e r))
           then LIBRE_LINK_SERVERS e (toUpperCase e r)
           else Some (''https://api-'' @ r @ ''.libreview.io''))
      \<and> sr = s\<lparr>baseUrl := baseUrl sr, config := (config s)\<lparr>region := toUpperCase e r\<rparr>\<rparr>
      \<and> prefix (events w @
                 [PostLogin (createClient s) (email (config s)) (password (config s)),
                  PostLogin \<lparr>hc_baseURL = baseUrl sr, hc_headers = baseHeaders s,
                             hc_timeout = 30000\<rparr>
                    (email (config s)) (password (config s))])
          (events (snd (snd (login e (Suc (Suc n)) s w))))"
      by blast
  qed
  have p2: "(\<forall>j<k. \<forall>c em pw. isRedirect (loginReply e (count isPostLogin w + j) c em pw))
        \<and> (\<forall>c em pw. \<not> isRedirect (loginReply e (count isPostLogin w + k) c em pw))
        \<and> k < fuel
      \<longrightarrow> fst (login e fuel s w) \<noteq> OutOfFuel
        \<and> count isPostLogin (snd (snd (login e fuel s w))) = count isPostLogin w + k + 1"
    using login_redirects_then [of k e w fuel s] by blast
  have p3: "(\<forall>j c em pw. isRedirect (loginReply e j c em pw))
      \<longrightarrow> fst (login e fuel s w) = OutOfFuel
        \<and> count isPostLogin (snd (snd (login e fuel s w))) = count isPostLogin w + fuel"
    using login_always_redirected [of e fuel s w] by blast
  from p1 p2 p3 show ?thesis by (intro conjI)
qed

lemma envCrossRedirect_redirects: "isRedirect (loginReply envCrossRedirect j c em pw)"
  by (simp add: envCrossRedirect_def)

lemma envTwoRedirects_replies:
  "\<forall>j<2. \<forall>c em pw. isRedirect (loginReply envTwoRedirects (0 + j) c em pw)"
  "\<forall>c em pw. \<not> isRedirect (loginReply envTwoRedirects (0 + 2) c em pw)"
  by (auto simp add: envTwoRedirects_def)

lemma envRedirectGrant_first:
  "nextLoginReply (envRedirectGrant r) s emptyWorld = redirect r"
  by (simp add: nextLoginReply_def envRedirectGrant_def count_def)

theorem login_follows_every_redirect_witness:
  "fst (login envTwoRedirects 3 (newClient envTwoRedirects cfgEU True) emptyWorld) \<noteq> OutOfFuel
   \<and> count isPostLogin (snd (snd (login envTwoRedirects 3 (newClient envTwoRedirects cfgEU True)
        emptyWorld))) = 3
   \<and> fst (login envCrossRedirect 7 (newClient envCrossRedirect cfgEU True) emptyWorld) = OutOfFuel
   \<and> count isPostLogin (snd (snd (login envCrossRedirect 7 (newClient envCrossRedirect cfgEU True)
        emptyWorld))) = 7
   \<and> prefix [PostLogin (createClient (sessionUntil 0)) ''a@b.com'' ''pw'',
              PostLogin \<lparr>hc_baseURL = Some ''https://api-us.libreview.io'',
                         hc_headers = baseHeaders (sessionUntil 0), hc_timeout = 30000\<rparr>
                ''a@b.com'' ''pw'']
        (events (snd (snd (login (envRedirectGrant ''us'') (Suc (Suc 0)) (sessionUntil 0)
           emptyWorld))))
   \<and> region (config (redirectTo (envRedirectGrant ''us'') ''us'' (sessionUntil 0))) = ''US''
   \<and> prefix [PostLogin (createClient (sessionUntil 0)) ''a@b.com'' ''pw'',
              PostLogin \<lparr>hc_baseURL = Some ''https://api-jp.libreview.io'',
                         hc_headers = baseHeaders (sessionUntil 0), hc_timeout = 30000\<rparr>
                ''a@b.com'' ''pw'']
        (events (snd (snd (login (envRedirectGrant ''jp'') (Suc (Suc 0)) (sessionUntil 0)
           emptyWorld))))
   \<and> region (config (redirectTo (envRedirectGrant ''jp'') ''jp'' (sessionUntil 0))) = ''JP''"
proof -
  let ?s = "sessionUntil 0"
  have a: "fst (login envTwoRedirects 3 (newClient envTwoRedirects cfgEU True) emptyWorld)
        \<noteq> OutOfFuel
      \<and> count isPostLogin (snd (snd (login envTwoRedirects 3
            (newClient envTwoRedirects cfgEU True) emptyWorld))) = 3"
    using login_follows_every_redirect
          [where e = envTwoRedirects and s = "newClient envTwoRedirects cfgEU True"
             and w = emptyWorld and k = 2 and fuel = 3]
        envTwoRedirects_replies
    by (simp add: count_def)
  have b: "fst (login envCrossRedirect 7 (newClient envCrossRedirect cfgEU True) emptyWorld)
        = OutOfFuel
      \<and> count isPostLogin (snd (snd (login envCrossRedirect 7
            (newClient envCrossRedirect cfgEU True) emptyWorld))) = 7"
    using login_follows_every_redirect
          [where e = envCrossRedirect and s = "newClient envCrossRedirect cfgEU True"
             and w = emptyWorld and fuel = 7]
        envCrossRedirect_redirects
    by (simp add: count_def)
  note c = login_follows_every_redirect
          [where e = "envRedirectGrant ''us''" and s = ?s and w = emptyWorld and n = 0
             and r = "''us''" and sr = "redirectTo (envRedirectGrant ''us'') ''us'' ?s"
             and wr = "emit (PostLogin (createClient ?s) (email (config ?s))
                          (password (config ?s))) emptyWorld"]
  note d = login_follows_every_redirect
          [where e = "envRedirectGrant ''jp''" and s = ?s and w = emptyWorld and n = 0
             and r = "''jp''" and sr = "redirectTo (envRedirectGrant ''jp'') ''jp'' ?s"
             and wr = "emit (PostLogin (createClient ?s) (email (config ?s))
                          (password (config ?s))) emptyWorld"]
  have c': "prefix [PostLogin (createClient ?s) ''a@b.com'' ''pw'',
              PostLogin \<lparr>hc_baseURL = Some ''https://api-us.libreview.io'',
                         hc_headers = baseHeaders ?s, hc_timeout = 30000\<rparr>
                ''a@b.com'' ''pw'']
        (events (snd (snd (login (envRedirectGrant ''us'') (Suc (Suc 0)) ?s emptyWorld))))
      \<and> region (config (redirectTo (envRedirectGrant ''us'') ''us'' ?s)) = ''US''"
    using c by (simp add: envRedirectGrant_first truthy_def asciiUpperCase_regions)
  have d': "prefix [PostLogin (createClient ?s) ''a@b.com'' ''pw'',
              PostLogin \<lparr>hc_baseURL = Some ''https://api-jp.libreview.io'',
                         hc_headers = baseHeaders ?s, hc_timeout = 30000\<rparr>
                ''a@b.com'' ''pw'']
        (events (snd (snd (login (envRedirectGrant ''jp'') (Suc (Suc 0)) ?s emptyWorld))))
      \<and> region (config (redirectTo (envRedirectGrant ''jp'') ''jp'' ?s)) = ''JP''"
    using d by (simp add: envRedirectGrant_first truthy_def asciiUpperCase_regions)
  from a b c' d' show ?thesis by blast
qed

lemma login_envTwoRedirects:
  "fst (login envTwoRedirects (Suc (Suc (Suc 0))) (newClient envTwoRedirects cfgEU True) emptyWorld)
     = Return ()
   \<and> count isPostLogin (snd (snd (login envTwoRedirects (Suc (Suc (Suc 0)))
        (newClient envTwoRedirects cfgEU True) emptyWorld))) = Suc (Suc (Suc 0))"
proof -
  let ?e = envTwoRedirects
  let ?s0 = "newClient ?e cfgEU True"
  let ?w1 = "emit (PostLogin (createClient ?s0) (email (config ?s0)) (password (config ?s0)))
               emptyWorld"
  let ?s1 = "redirectTo ?e ''us'' ?s0"
  let ?w2 = "emit (PostLogin (createClient ?s1) (email (config ?s1)) (password (config ?s1))) ?w1"
  let ?s2 = "redirectTo ?e ''eu'' ?s1"
  have r0: "nextLoginReply ?e ?s0 emptyWorld = redirect ''us''"
    by (simp add: nextLoginReply_def envTwoRedirects_def count_def)
  have r1: "nextLoginReply ?e ?s1 ?w1 = redirect ''eu''"
    by (simp add: nextLoginReply_def envTwoRedirects_def count_def)
  have r2: "nextLoginReply ?e ?s2 ?w2 = grant ''tok1'' ''u1'' 5000"
    by (simp add: nextLoginReply_def envTwoRedirects_def count_def)
  have "login ?e (Suc (Suc (Suc 0))) ?s0 emptyWorld = login ?e (Suc (Suc 0)) ?s1 ?w1"
    using login_redirect_step [of ?e ?s0 emptyWorld "Suc (Suc 0)"] r0 by simp
  also have "\<dots> = login ?e (Suc 0) ?s2 ?w2"
    using login_redirect_step [of ?e ?s1 ?w1 "Suc 0"] r1 by simp
  finally have l: "login ?e (Suc (Suc (Suc 0))) ?s0 emptyWorld = login ?e (Suc 0) ?s2 ?w2" .
  have "fst (login ?e (Suc 0) ?s2 ?w2) = Return ()"
    using login_granted [OF r2, of 0] by (simp add: storeAuthentication_def Let_def)
  moreover have "count isPostLogin (snd (snd (login ?e (Suc 0) ?s2 ?w2))) = Suc (Suc (Suc 0))"
    using login_stops [of ?e ?s2 ?w2 0] r2 by (simp add: count_def)
  ultimately show ?thesis using l by simp
qed

text \<open>
  The claim as stated fails: redirected twice and then granted, \<^verbatim>\<open>login()\<close> follows both
  hops and returns after its third request.
\<close>

theorem login_two_redirect_hops_counterexample:
  "fst (login envTwoRedirects (Suc (Suc (Suc 0))) (newClient envTwoRedirects cfgEU True) emptyWorld)
     = Return ()
   \<and> count isPostLogin (snd (snd (login envTwoRedirects (Suc (Suc (Suc 0)))
        (newClient envTwoRedirects cfgEU True) emptyWorld))) = Suc (Suc (Suc 0))"
  by (rule login_envTwoRedirects)

section \<open>Unauthorized answers\<close>






end
